theory Spec2Isabelle
  imports Main "HOL-Library.Word"
begin

section \<open>Data model\<close>

text \<open>
  The gateway keeps three containers behind one lock: the virtual entities, the virtual
  commands and the event journal (state.go). The structs of the SDK packages
  (\<open>types.Entity\<close>, \<open>types.CommandStatus\<close>, \<open>types.Response\<close>, ...) are not part of
  the repository; the fields the gateway reads and writes are modelled below. Field names
  carry a short prefix, because record fields share one name space.

  \<open>json.RawMessage\<close> is a byte string, \<open>time.Time\<close> is the number of nanoseconds since
  the epoch (the gateway only ever stores \<open>time.Now().UTC()\<close>).
\<close>

type_synonym RawMessage = string
type_synonym Time = int

text \<open>Modelled from the spec: \<open>types.EntityData\<close>, the \<open>data\<close> block of an entity
  (desired, reported, effective, sync_status, last_command_id, last_event_id, updated_at).\<close>

record EntityData =
  Desired :: RawMessage
  Reported :: RawMessage
  Effective :: RawMessage
  SyncStatus :: string
  LastCommandID :: string
  LastEventID :: string
  UpdatedAt :: Time

text \<open>Modelled from the spec: \<open>types.Entity\<close> (id, device_id, domain, local_name,
  actions, data).\<close>

record Entity =
  ent_ID :: string
  ent_DeviceID :: string
  ent_Domain :: string
  ent_LocalName :: string
  ent_Actions :: "string list"
  ent_Data :: EntityData

text \<open>Modelled from the spec: \<open>types.CommandState\<close> is a string type with the three
  constants \<open>pending\<close>, \<open>succeeded\<close> and \<open>failed\<close>. A status decoded from a plugin's
  reply can hold any string.\<close>

type_synonym CommandState = string

definition CommandPending :: CommandState where
  "CommandPending = ''pending''"

definition CommandSucceeded :: CommandState where
  "CommandSucceeded = ''succeeded''"

definition CommandFailed :: CommandState where
  "CommandFailed = ''failed''"

text \<open>Modelled from the spec: \<open>types.CommandStatus\<close> (command_id, plugin_id, device_id,
  entity_id, entity_type, state, error, created_at, last_updated_at).\<close>

record CommandStatus =
  cs_CommandID :: string
  cs_PluginID :: string
  cs_DeviceID :: string
  cs_EntityID :: string
  cs_EntityType :: string
  cs_State :: CommandState
  cs_Error :: string
  cs_CreatedAt :: Time
  cs_LastUpdatedAt :: Time

record virtualEntityRecord =
  OwnerPluginID :: string
  OwnerDeviceID :: string
  SourcePluginID :: string
  SourceDeviceID :: string
  SourceEntityID :: string
  MirrorSource :: bool
  Entity :: Entity

record virtualCommandRecord =
  vc_OwnerPluginID :: string
  vc_SourcePluginID :: string
  SourceCommand :: string
  VirtualKey :: string
  Status :: CommandStatus

record observedEvent =
  Name :: string
  ev_PluginID :: string
  ev_DeviceID :: string
  ev_EntityID :: string
  ev_EventID :: string
  ev_CreatedAt :: Time

record virtualStore =
  entities :: "string \<rightharpoonup> virtualEntityRecord"
  commands :: "string \<rightharpoonup> virtualCommandRecord"
  events :: "observedEvent list"
  dataDir :: string

definition entityKey :: "string \<Rightarrow> string \<Rightarrow> string \<Rightarrow> string" where
  "entityKey pluginID deviceID entityID = pluginID @ ''|'' @ deviceID @ ''|'' @ entityID"

section \<open>The world outside the store\<close>

text \<open>
  Modelled from the spec: the JSON-RPC envelopes of the SDK, \<open>{jsonrpc, id, result?,
  error?: {code, message}}\<close> for a response and \<open>{jsonrpc, id, method, params}\<close> for
  a request, and a registration \<open>{manifest, rpc_subject}\<close> of which the gateway reads
  the subject only. The parameters of a request are kept as the key/value pairs the
  gateway builds (\<open>gin.H{...}\<close>), before they are marshalled.
\<close>

record RPCError =
  Code :: int
  Message :: string

record Response =
  resp_JSONRPC :: string
  resp_ID :: RawMessage
  Result :: RawMessage
  Error :: "RPCError option"

type_synonym Params = "(string \<times> string) list"

record Request =
  req_JSONRPC :: string
  req_ID :: "RawMessage option"
  Method :: string
  Params :: Params

record Registration =
  ManifestID :: string
  RPCSubject :: string

definition JSONRPCVersion :: string where
  "JSONRPCVersion = ''2.0''"

text \<open>\<open>time.Duration\<close> counts nanoseconds.\<close>

definition Millisecond :: nat where
  "Millisecond = 1000000"

definition Second :: nat where
  "Second = 1000 * Millisecond"

text \<open>
  The mutable state of the process: the registry, the virtual store, the counter of the
  ID generator, and what the process has done to its surroundings: the files under the
  data directory, the requests put on the bus (subject, request, timeout) and the number
  of clock readings taken so far. \<open>unwritable\<close> holds the paths at which
  \<open>os.WriteFile\<close> fails; the gateway drops that error.
\<close>

record world =
  registry :: "string \<rightharpoonup> Registration"
  vstore :: virtualStore
  idSeq :: "64 word"
  files :: "string \<rightharpoonup> string"
  unwritable :: "string set"
  ticks :: nat
  sent :: "(string \<times> Request \<times> nat) list"

text \<open>
  The outcome of \<open>json.Unmarshal\<close> into a variable that starts as a nil map or slice:
  an error, nothing to store because the document is \<open>null\<close> (no error, the variable
  stays nil), or the decoded value.
\<close>

datatype 'a decoded = DecodeError string | DecodedNull | Decoded 'a

text \<open>
  What the process cannot decide itself is an input: the wall clock (the value of the
  n-th reading), the plugins behind the bus (for the n-th request: no reply at all, or a
  reply with its latency in nanoseconds), and the library functions the gateway calls on
  bytes: \<open>encoding/json\<close> decoding into each target type (\<open>Inl\<close> carries the text of
  the decoding error), the indented encoding of the three containers, the \<open>%q\<close>
  verb of \<open>fmt\<close>, and gin's \<open>ShouldBindJSON\<close> into a \<open>json.RawMessage\<close>, which
  gives the body back as the payload when it is one JSON value and an error otherwise. \<open>json_Response\<close> is total: \<open>routeRPC\<close> ignores the error of that
  decoding and returns whatever the response variable then holds.
\<close>

record env =
  wallclock :: "nat \<Rightarrow> Time"
  bus :: "nat \<Rightarrow> string \<Rightarrow> Request \<Rightarrow> (nat \<times> string) option"
  json_Response :: "string \<Rightarrow> Response"
  json_EntityList :: "RawMessage \<Rightarrow> string + Entity list"
  json_CommandStatus :: "RawMessage \<Rightarrow> string + CommandStatus"
  json_Type :: "RawMessage \<Rightarrow> string + string"
  marshalEntities :: "(string \<rightharpoonup> virtualEntityRecord) \<Rightarrow> string"
  unmarshalEntities :: "string \<Rightarrow> (string \<rightharpoonup> virtualEntityRecord) decoded"
  marshalCommands :: "(string \<rightharpoonup> virtualCommandRecord) \<Rightarrow> string"
  unmarshalCommands :: "string \<Rightarrow> (string \<rightharpoonup> virtualCommandRecord) decoded"
  marshalJournal :: "observedEvent list \<Rightarrow> string"
  unmarshalJournal :: "string \<Rightarrow> observedEvent list decoded"
  fmt_q :: "string \<Rightarrow> string"
  gin_ShouldBindJSON :: "string \<Rightarrow> string + RawMessage"

definition time_Now :: "env \<Rightarrow> world \<Rightarrow> Time \<times> world" where
  "time_Now E w = (wallclock E (ticks w), w\<lparr>ticks := ticks w + 1\<rparr>)"

text \<open>
  \<open>nc.Request(subject, data, timeout)\<close>: the request goes out; the caller gets the
  reply when it arrives within the timeout and an error otherwise.
\<close>

definition nc_Request :: "env \<Rightarrow> string \<Rightarrow> Request \<Rightarrow> nat \<Rightarrow> world \<Rightarrow> string option \<times> world" where
  "nc_Request E subject req timeout w =
     (let w1 = w\<lparr>sent := sent w @ [(subject, req, timeout)]\<rparr>
      in case bus E (length (sent w)) subject req of
           None \<Rightarrow> (None, w1)
         | Some (latency, data) \<Rightarrow> (if latency \<le> timeout then Some data else None, w1))"

section \<open>The ID generator\<close>

text \<open>
  \<open>fmt.Sprintf("%s-%d-%d", prefix, time.Now().UnixNano(), atomic.AddUint64(&idSeq, 1))\<close>.
  \<open>%d\<close> prints a number in decimal, with a minus sign when it is negative. The clock is
  read first, then the counter is incremented (with wrap-around at 64 bits) and its new
  value is printed. The atomic increment makes concurrent calls behave as if they ran
  one after the other, so a call is one step on the world.
\<close>

fun fmt_d :: "nat \<Rightarrow> string" where
  "fmt_d n = (if n < 10 then [''0123456789'' ! n]
              else fmt_d (n div 10) @ [''0123456789'' ! (n mod 10)])"

text \<open>The equation of \<open>fmt_d\<close> is applied by hand, it would unfold without end.\<close>

declare fmt_d.simps [simp del]

definition fmt_d_int :: "int \<Rightarrow> string" where
  "fmt_d_int i = (if i < 0 then ''-'' @ fmt_d (nat (- i)) else fmt_d (nat i))"

definition nextID :: "env \<Rightarrow> string \<Rightarrow> world \<Rightarrow> string \<times> world" where
  "nextID E prefix w =
     (case time_Now E w of (now, w1) \<Rightarrow>
        let n = idSeq w1 + 1
        in (prefix @ ''-'' @ fmt_d_int now @ ''-'' @ fmt_d (unat n), w1\<lparr>idSeq := n\<rparr>))"

text \<open>The IDs of a run of calls, one prefix per call, and the world after them.\<close>

fun nextIDs :: "env \<Rightarrow> string list \<Rightarrow> world \<Rightarrow> string list \<times> world" where
  "nextIDs E [] w = ([], w)"
| "nextIDs E (p # ps) w =
     (case nextID E p w of (i, w1) \<Rightarrow>
        case nextIDs E ps w1 of (is, w2) \<Rightarrow> (i # is, w2))"

section \<open>The RPC router and its helpers\<close>

definition errorResponse :: "string \<Rightarrow> Response" where
  "errorResponse msg =
     \<lparr>resp_JSONRPC = JSONRPCVersion, resp_ID = [], Result = [],
      Error = Some \<lparr>Code = - 32000, Message = msg\<rparr>\<rparr>"

definition routeRPC :: "env \<Rightarrow> string \<Rightarrow> string \<Rightarrow> Params \<Rightarrow> world \<Rightarrow> Response \<times> world" where
  "routeRPC E pluginID method params w =
     (case registry w pluginID of
        None \<Rightarrow> (errorResponse ''plugin not registered'', w)
      | Some reg \<Rightarrow>
          let req = \<lparr>req_JSONRPC = JSONRPCVersion, req_ID = Some ''1'',
                     Method = method, Params = params\<rparr>
          in case nc_Request E (RPCSubject reg) req (2 * Second) w of
               (None, w1) \<Rightarrow> (errorResponse ''plugin timeout'', w1)
             | (Some data, w1) \<Rightarrow> (json_Response E data, w1))"

definition parseEntities :: "env \<Rightarrow> Response \<Rightarrow> string + Entity list" where
  "parseEntities E resp =
     (case Error resp of
        Some e \<Rightarrow> Inl (Message e)
      | None \<Rightarrow> json_EntityList E (Result resp))"

definition findEntity :: "env \<Rightarrow> string \<Rightarrow> string \<Rightarrow> string \<Rightarrow> world \<Rightarrow> (string + Entity) \<times> world" where
  "findEntity E pluginID deviceID entityID w =
     (case routeRPC E pluginID ''entities/list'' [(''device_id'', deviceID)] w of (resp, w1) \<Rightarrow>
        case parseEntities E resp of
          Inl err \<Rightarrow> (Inl err, w1)
        | Inr ents \<Rightarrow>
            (case find (\<lambda>e. ent_ID e = entityID) ents of
               Some e \<Rightarrow> (Inr e, w1)
             | None \<Rightarrow> (Inl ''entity not found'', w1)))"

definition fetchCommandStatus :: "env \<Rightarrow> string \<Rightarrow> string \<Rightarrow> world \<Rightarrow> (string + CommandStatus) \<times> world" where
  "fetchCommandStatus E pluginID commandID w =
     (case routeRPC E pluginID ''commands/status/get'' [(''command_id'', commandID)] w of (resp, w1) \<Rightarrow>
        case Error resp of
          Some e \<Rightarrow> (Inl (Message e), w1)
        | None \<Rightarrow> (json_CommandStatus E (Result resp), w1))"

definition parseActionType :: "env \<Rightarrow> RawMessage \<Rightarrow> string + string" where
  "parseActionType E payload =
     (case json_Type E payload of
        Inl err \<Rightarrow> Inl err
      | Inr t \<Rightarrow> if t = [] then Inl ''payload.type is required'' else Inr t)"

fun containsAction :: "string list \<Rightarrow> string \<Rightarrow> bool" where
  "containsAction [] action = False"
| "containsAction (a # as) action = (if a = action then True else containsAction as action)"

section \<open>Event names\<close>

text \<open>Modelled from the spec: the constants \<open>light.Type\<close> and \<open>light.ActionSetRGB\<close> of
  the SDK's light domain, \<open>light\<close> and \<open>set_rgb\<close>.\<close>

definition light_Type :: string where
  "light_Type = ''light''"

definition light_ActionSetRGB :: string where
  "light_ActionSetRGB = ''set_rgb''"

definition classifyEventName :: "env \<Rightarrow> string \<Rightarrow> RawMessage \<Rightarrow> bool \<Rightarrow> string" where
  "classifyEventName E entityType payload isVirtual =
     (let prefix = (if isVirtual then ''entity.virtual'' else ''entity.original'')
      in if entityType = light_Type
         then (case json_Type E payload of
                 Inr t \<Rightarrow> if t = light_ActionSetRGB then prefix @ ''.lightchange''
                          else prefix @ ''.statechange''
               | Inl err \<Rightarrow> prefix @ ''.statechange'')
         else prefix @ ''.statechange'')"

section \<open>The event journal\<close>

text \<open>
  \<open>appendEventLocked\<close> appends and then keeps the last 5000 entries:
  \<open>vs.events[len(vs.events)-5000:]\<close> is \<open>drop (length - 5000)\<close>. The function is
  polymorphic in the element, the journal operation never looks inside an event.
\<close>

definition appendEventLocked :: "'e list \<Rightarrow> 'e \<Rightarrow> 'e list" where
  "appendEventLocked evs evt =
     (let evs1 = evs @ [evt]
      in if length evs1 > 5000 then drop (length evs1 - 5000) evs1 else evs1)"

text \<open>Injecting a sequence of events into a journal, one append per event.\<close>

definition inject :: "'e list \<Rightarrow> 'e list \<Rightarrow> 'e list" where
  "inject evs new = foldl appendEventLocked evs new"

section \<open>Persistence\<close>

text \<open>
  \<open>filepath.Join(dataDir, name)\<close>; the cleaning of the path is left out, the three
  files of one data directory get three different paths either way.
\<close>

definition virtualFile :: "string \<Rightarrow> string \<Rightarrow> string" where
  "virtualFile dir name = dir @ ''/'' @ name"

definition os_WriteFile :: "string \<Rightarrow> string \<Rightarrow> world \<Rightarrow> world" where
  "os_WriteFile path data w =
     (if path \<in> unwritable w then w else w\<lparr>files := (files w)(path \<mapsto> data)\<rparr>)"

text \<open>\<open>persistLocked\<close> writes the three containers, each to its file, and drops every
  error.\<close>

definition persistLocked :: "env \<Rightarrow> world \<Rightarrow> world" where
  "persistLocked E w =
     (let vs = vstore w;
          w1 = os_WriteFile (virtualFile (dataDir vs) ''virtual_entities.json'')
                 (marshalEntities E (entities vs)) w;
          w2 = os_WriteFile (virtualFile (dataDir vs) ''virtual_commands.json'')
                 (marshalCommands E (commands vs)) w1
      in os_WriteFile (virtualFile (dataDir vs) ''event_journal.json'')
           (marshalJournal E (events vs)) w2)"

text \<open>
  \<open>loadVirtualStore\<close> starts from empty containers made with \<open>make\<close> and replaces
  each one when its file can be read and decodes without error. A Go map can be nil, and
  it is after a file that holds \<open>null\<close> has been decoded into it: a nil map reads as an
  empty one, but a write to it panics. The loaded store keeps that difference (\<open>None\<close>
  is the nil map); a nil journal is an empty slice for every use the gateway makes of it.
\<close>

record loadedStore =
  ld_entities :: "(string \<rightharpoonup> virtualEntityRecord) option"
  ld_commands :: "(string \<rightharpoonup> virtualCommandRecord) option"
  ld_events :: "observedEvent list"
  ld_dataDir :: string

definition loadVirtualStore :: "env \<Rightarrow> string \<Rightarrow> (string \<rightharpoonup> string) \<Rightarrow> loadedStore" where
  "loadVirtualStore E dir fs =
     (let vs = \<lparr>ld_entities = Some Map.empty, ld_commands = Some Map.empty, ld_events = [],
                ld_dataDir = dir\<rparr>;
          vs1 = (case fs (virtualFile dir ''virtual_entities.json'') of
                   Some data \<Rightarrow> (case unmarshalEntities E data of
                                   Decoded ents \<Rightarrow> vs\<lparr>ld_entities := Some ents\<rparr>
                                 | DecodedNull \<Rightarrow> vs\<lparr>ld_entities := None\<rparr>
                                 | DecodeError err \<Rightarrow> vs)
                 | None \<Rightarrow> vs);
          vs2 = (case fs (virtualFile dir ''virtual_commands.json'') of
                   Some data \<Rightarrow> (case unmarshalCommands E data of
                                   Decoded cmds \<Rightarrow> vs1\<lparr>ld_commands := Some cmds\<rparr>
                                 | DecodedNull \<Rightarrow> vs1\<lparr>ld_commands := None\<rparr>
                                 | DecodeError err \<Rightarrow> vs1)
                 | None \<Rightarrow> vs1)
      in (case fs (virtualFile dir ''event_journal.json'') of
            Some data \<Rightarrow> (case unmarshalJournal E data of
                            Decoded journal \<Rightarrow> vs2\<lparr>ld_events := journal\<rparr>
                          | DecodedNull \<Rightarrow> vs2\<lparr>ld_events := []\<rparr>
                          | DecodeError err \<Rightarrow> vs2)
          | None \<Rightarrow> vs2))"

text \<open>
  The handlers and the monitor below work on a store whose maps are not nil, which is
  every store that did not come from a file holding \<open>null\<close>. \<open>storeOf\<close> reads a
  loaded store as such a store; it is exact for every read.
\<close>

definition storeOf :: "loadedStore \<Rightarrow> virtualStore" where
  "storeOf ld =
     \<lparr>entities = (case ld_entities ld of Some m \<Rightarrow> m | None \<Rightarrow> Map.empty),
      commands = (case ld_commands ld of Some m \<Rightarrow> m | None \<Rightarrow> Map.empty),
      events = ld_events ld, dataDir = ld_dataDir ld\<rparr>"

section \<open>Handlers\<close>

text \<open>
  A handler answers with a status and a body. A failure carries the HTTP status and
  either a message (\<open>gin.H{"error": msg}\<close>) or the error object of a plugin's reply.
  Each section of a handler that runs under the store's lock is one step of the model;
  a handler is modelled running alone. The handlers that create a virtual entity and
  that ingest an event are modelled from the decoded request on.
\<close>

datatype errorBody = ErrorText string | ErrorObject RPCError

datatype httpError = HTTPError nat errorBody

definition StatusBadRequest :: nat where
  "StatusBadRequest = 400"

definition StatusForbidden :: nat where
  "StatusForbidden = 403"

definition StatusConflict :: nat where
  "StatusConflict = 409"

text \<open>Updating the \<open>Data\<close> block of the entity inside a virtual entity record.\<close>

definition withData :: "(EntityData \<Rightarrow> EntityData) \<Rightarrow> virtualEntityRecord \<Rightarrow> virtualEntityRecord" where
  "withData f rec = rec\<lparr>Entity := (Entity rec)\<lparr>ent_Data := f (ent_Data (Entity rec))\<rparr>\<rparr>"

definition setEntity :: "string \<Rightarrow> virtualEntityRecord \<Rightarrow> world \<Rightarrow> world" where
  "setEntity key rec w = w\<lparr>vstore := (vstore w)\<lparr>entities := (entities (vstore w))(key \<mapsto> rec)\<rparr>\<rparr>"

definition setCommand :: "string \<Rightarrow> virtualCommandRecord \<Rightarrow> world \<Rightarrow> world" where
  "setCommand cid rec w = w\<lparr>vstore := (vstore w)\<lparr>commands := (commands (vstore w))(cid \<mapsto> rec)\<rparr>\<rparr>"

definition appendEvent :: "observedEvent \<Rightarrow> world \<Rightarrow> world" where
  "appendEvent evt w = w\<lparr>vstore := (vstore w)\<lparr>events := appendEventLocked (events (vstore w)) evt\<rparr>\<rparr>"

subsection \<open>Creating a virtual entity\<close>

record createRequest =
  rq_ID :: string
  rq_LocalName :: string
  rq_Actions :: "string list"
  rq_SourcePluginID :: string
  rq_SourceDeviceID :: string
  rq_SourceEntityID :: string
  rq_MirrorSource :: "bool option"

definition createVirtualEntityHandler ::
  "env \<Rightarrow> string \<Rightarrow> string \<Rightarrow> createRequest \<Rightarrow> world \<Rightarrow> (httpError + Entity) \<times> world" where
  "createVirtualEntityHandler E pluginID deviceID req w =
     (if rq_ID req = [] \<or> rq_SourcePluginID req = [] \<or> rq_SourceDeviceID req = []
         \<or> rq_SourceEntityID req = []
      then (Inl (HTTPError StatusBadRequest
              (ErrorText ''id, source_plugin_id, source_device_id, source_entity_id are required'')), w)
      else
        let key = entityKey pluginID deviceID (rq_ID req)
        in case findEntity E pluginID deviceID (rq_ID req) w of
             (Inr found, w1) \<Rightarrow>
               (Inl (HTTPError StatusConflict (ErrorText ''entity id already exists in plugin'')), w1)
           | (Inl err, w1) \<Rightarrow>
               (case entities (vstore w1) key of
                  Some existing \<Rightarrow>
                    (Inl (HTTPError StatusConflict (ErrorText ''virtual entity id already exists'')), w1)
                | None \<Rightarrow>
                    (case findEntity E (rq_SourcePluginID req) (rq_SourceDeviceID req)
                            (rq_SourceEntityID req) w1 of
                       (Inl err2, w2) \<Rightarrow>
                         (Inl (HTTPError StatusForbidden (ErrorText ''source entity not found'')), w2)
                     | (Inr source, w2) \<Rightarrow>
                         let mirror = (case rq_MirrorSource req of Some m \<Rightarrow> m | None \<Rightarrow> True);
                             actions = (if length (rq_Actions req) = 0 then ent_Actions source
                                        else rq_Actions req);
                             localName = (if rq_LocalName req = [] then ent_LocalName source
                                          else rq_LocalName req)
                         in case time_Now E w2 of (now, w3) \<Rightarrow>
                              let ent = \<lparr>ent_ID = rq_ID req, ent_DeviceID = deviceID,
                                         ent_Domain = ent_Domain source, ent_LocalName = localName,
                                         ent_Actions = actions,
                                         ent_Data = (ent_Data source)\<lparr>SyncStatus := ''in_sync'',
                                                                      UpdatedAt := now\<rparr>\<rparr>;
                                  rec = \<lparr>OwnerPluginID = pluginID, OwnerDeviceID = deviceID,
                                         SourcePluginID = rq_SourcePluginID req,
                                         SourceDeviceID = rq_SourceDeviceID req,
                                         SourceEntityID = rq_SourceEntityID req,
                                         MirrorSource = mirror, Entity = ent\<rparr>
                              in (Inr ent, persistLocked E (setEntity key rec w3)))))"

subsection \<open>Dispatching a command\<close>

text \<open>
  A command for a virtual entity is answered with the gateway's own status; a command for
  any other entity is answered with the plugin's result as it came. The virtual path ends
  by starting the monitor of the new command (\<open>go monitorVirtualCommand\<close>), which is a
  task of its own and modelled below.
\<close>

datatype commandReply = LocalStatus CommandStatus | PluginResult RawMessage

definition forwardVirtualCommand ::
  "env \<Rightarrow> string \<Rightarrow> string \<Rightarrow> string \<Rightarrow> virtualEntityRecord \<Rightarrow> RawMessage \<Rightarrow> world
   \<Rightarrow> (httpError + commandReply) \<times> world" where
  "forwardVirtualCommand E pluginID deviceID entityID vrec payload w =
     (let key = entityKey pluginID deviceID entityID;
          params = [(''device_id'', SourceDeviceID vrec), (''entity_id'', SourceEntityID vrec),
                    (''payload'', payload)]
      in case routeRPC E (SourcePluginID vrec) ''entities/commands/create'' params w of
           (sourceResp, w1) \<Rightarrow>
             (case Error sourceResp of
                Some e \<Rightarrow> (Inl (HTTPError StatusForbidden (ErrorObject e)), w1)
              | None \<Rightarrow>
                  (case json_CommandStatus E (Result sourceResp) of
                     Inl err \<Rightarrow>
                       (Inl (HTTPError StatusForbidden (ErrorText ''invalid source command status'')), w1)
                   | Inr sourceStatus \<Rightarrow>
                       (case time_Now E w1 of (now, w2) \<Rightarrow>
                        case nextID E ''vcmd'' w2 of (virtualCID, w3) \<Rightarrow>
                          let status = \<lparr>cs_CommandID = virtualCID, cs_PluginID = pluginID,
                                         cs_DeviceID = deviceID, cs_EntityID = entityID,
                                         cs_EntityType = ent_Domain (Entity vrec),
                                         cs_State = CommandPending, cs_Error = [],
                                         cs_CreatedAt = now, cs_LastUpdatedAt = now\<rparr>;
                              w4 = setCommand virtualCID
                                     \<lparr>vc_OwnerPluginID = pluginID,
                                      vc_SourcePluginID = SourcePluginID vrec,
                                      SourceCommand = cs_CommandID sourceStatus,
                                      VirtualKey = key, Status = status\<rparr> w3;
                              vrec1 = withData (\<lambda>d. d\<lparr>LastCommandID := virtualCID,
                                                         SyncStatus := ''pending'',
                                                         UpdatedAt := now\<rparr>) vrec
                          in (Inr (LocalStatus status), persistLocked E (setEntity key vrec1 w4))))))"

text \<open>
  The handler first binds the request body to the payload and refuses the request when
  that fails, before it looks at the store.
\<close>

definition sendCommand ::
  "env \<Rightarrow> string \<Rightarrow> string \<Rightarrow> string \<Rightarrow> string \<Rightarrow> world \<Rightarrow> (httpError + commandReply) \<times> world" where
  "sendCommand E pluginID deviceID entityID body w =
     (case gin_ShouldBindJSON E body of
        Inl err \<Rightarrow> (Inl (HTTPError StatusBadRequest (ErrorText err)), w)
      | Inr payload \<Rightarrow>
          let key = entityKey pluginID deviceID entityID
          in case entities (vstore w) key of
               Some vrec \<Rightarrow>
                 (case parseActionType E payload of
                    Inl err \<Rightarrow> (Inl (HTTPError StatusBadRequest (ErrorText err)), w)
                  | Inr actionType \<Rightarrow>
                      if length (ent_Actions (Entity vrec)) > 0
                         \<and> \<not> containsAction (ent_Actions (Entity vrec)) actionType
                      then (Inl (HTTPError StatusForbidden
                              (ErrorText (''action '' @ fmt_q E actionType
                                          @ '' not supported by this virtual entity''))), w)
                      else forwardVirtualCommand E pluginID deviceID entityID vrec payload w)
             | None \<Rightarrow>
                 (let params = [(''device_id'', deviceID), (''entity_id'', entityID),
                                (''payload'', payload)]
                  in case routeRPC E pluginID ''entities/commands/create'' params w of
                       (resp, w1) \<Rightarrow>
                         (case Error resp of
                            Some e \<Rightarrow> (Inl (HTTPError StatusForbidden (ErrorObject e)), w1)
                          | None \<Rightarrow> (Inr (PluginResult (Result resp)), w1))))"

subsection \<open>Ingesting an event\<close>

datatype ingestReply = IngestedEntity Entity | IngestForwarded RawMessage

text \<open>The part of the ingest that runs when a correlation ID came with the request.\<close>

definition correlate :: "env \<Rightarrow> string \<Rightarrow> virtualEntityRecord \<Rightarrow> world \<Rightarrow> virtualEntityRecord \<times> world" where
  "correlate E correlationID vrec w =
     (if correlationID \<noteq> []
      then
        let vrec1 = withData (\<lambda>d. d\<lparr>LastCommandID := correlationID\<rparr>) vrec
        in case commands (vstore w) correlationID of
             Some cmdRec \<Rightarrow>
               (case time_Now E w of (now, w1) \<Rightarrow>
                  (vrec1, setCommand correlationID
                            (cmdRec\<lparr>Status := (Status cmdRec)\<lparr>cs_State := CommandSucceeded,
                                                              cs_LastUpdatedAt := now\<rparr>\<rparr>) w1))
           | None \<Rightarrow> (vrec1, w)
      else (vrec, w))"

definition ingestEvent ::
  "env \<Rightarrow> string \<Rightarrow> string \<Rightarrow> string \<Rightarrow> RawMessage \<Rightarrow> string \<Rightarrow> world
   \<Rightarrow> (httpError + ingestReply) \<times> world" where
  "ingestEvent E pluginID deviceID entityID payload correlationID w =
     (let key = entityKey pluginID deviceID entityID
      in case entities (vstore w) key of
           Some vrec \<Rightarrow>
             (case nextID E ''vevt'' w of (eventID, w1) \<Rightarrow>
              case correlate E correlationID
                     (withData (\<lambda>d. d\<lparr>Reported := payload, Effective := payload,
                                       SyncStatus := ''in_sync'', LastEventID := eventID\<rparr>) vrec) w1 of
                (vrec1, w2) \<Rightarrow>
              case time_Now E w2 of (updated, w3) \<Rightarrow>
              case time_Now E w3 of (created, w4) \<Rightarrow>
                let vrec2 = withData (\<lambda>d. d\<lparr>UpdatedAt := updated\<rparr>) vrec1;
                    evt = \<lparr>Name = classifyEventName E (ent_Domain (Entity vrec2)) payload True,
                           ev_PluginID = pluginID, ev_DeviceID = deviceID, ev_EntityID = entityID,
                           ev_EventID = LastEventID (ent_Data (Entity vrec2)),
                           ev_CreatedAt = created\<rparr>
                in (Inr (IngestedEntity (Entity vrec2)),
                    persistLocked E (appendEvent evt (setEntity key vrec2 w4))))
         | None \<Rightarrow>
             (let params = [(''device_id'', deviceID), (''entity_id'', entityID),
                            (''payload'', payload), (''correlation_id'', correlationID)]
              in case routeRPC E pluginID ''entities/events/ingest'' params w of (resp, w1) \<Rightarrow>
                   (case Error resp of
                      Some e \<Rightarrow> (Inl (HTTPError StatusForbidden (ErrorObject e)), w1)
                    | None \<Rightarrow> (Inr (IngestForwarded (Result resp)), w1))))"

section \<open>The command monitor\<close>

text \<open>
  One task per virtual command. Each turn of its loop sleeps 100 ms, reads the command
  record, asks the source plugin for the status of the source command and, when that
  status is not pending, writes it into the record and the mirror and ends the task.
  After 100 turns without such a status the code after the loop marks the command as
  timed out.

  The other tasks of the process run while the monitor sleeps: \<open>others i\<close> is what
  they do to the world during the sleep of turn \<open>i\<close>. The turn itself is one step. The
  loop returns, next to the world, how it ended and the total time it slept.
\<close>

datatype loopEnd = Continue | Return

text \<open>The section of a turn that runs under the exclusive lock.\<close>

definition applySourceStatus :: "env \<Rightarrow> string \<Rightarrow> CommandStatus \<Rightarrow> world \<Rightarrow> world" where
  "applySourceStatus E commandID sourceStatus w =
     (case commands (vstore w) commandID of
        None \<Rightarrow> w
      | Some rec \<Rightarrow>
          (case time_Now E w of (now, w1) \<Rightarrow>
             let rec1 = rec\<lparr>Status := (Status rec)\<lparr>cs_State := cs_State sourceStatus,
                                                   cs_Error := cs_Error sourceStatus,
                                                   cs_LastUpdatedAt := now\<rparr>\<rparr>;
                 w2 = setCommand commandID rec1 w1
             in persistLocked E
                  (case entities (vstore w2) (VirtualKey rec1) of
                     None \<Rightarrow> w2
                   | Some vent \<Rightarrow>
                       (case (if cs_State sourceStatus = CommandSucceeded
                              then (case findEntity E (SourcePluginID vent) (SourceDeviceID vent)
                                           (SourceEntityID vent) w2 of
                                      (Inr src, w3) \<Rightarrow>
                                        (withData (\<lambda>d. d\<lparr>Desired := Desired (ent_Data src),
                                                          Reported := Reported (ent_Data src),
                                                          Effective := Effective (ent_Data src),
                                                          SyncStatus := ''in_sync''\<rparr>) vent, w3)
                                    | (Inl err, w3) \<Rightarrow>
                                        (withData (\<lambda>d. d\<lparr>SyncStatus := ''in_sync''\<rparr>) vent, w3))
                              else (withData (\<lambda>d. d\<lparr>SyncStatus := ''failed''\<rparr>) vent, w2)) of
                          (vent1, w4) \<Rightarrow>
                            (case time_Now E w4 of (updated, w5) \<Rightarrow>
                               setEntity (VirtualKey rec1)
                                 (withData (\<lambda>d. d\<lparr>LastCommandID := commandID,
                                                   UpdatedAt := updated\<rparr>) vent1) w5)))))"

definition monitorPoll :: "env \<Rightarrow> string \<Rightarrow> world \<Rightarrow> loopEnd \<times> world" where
  "monitorPoll E commandID w =
     (case commands (vstore w) commandID of
        None \<Rightarrow> (Return, w)
      | Some rec \<Rightarrow>
          (case fetchCommandStatus E (vc_SourcePluginID rec) (SourceCommand rec) w of
             (Inl err, w1) \<Rightarrow> (Continue, w1)
           | (Inr sourceStatus, w1) \<Rightarrow>
               if cs_State sourceStatus = CommandPending then (Continue, w1)
               else (Return, applySourceStatus E commandID sourceStatus w1)))"

function monitorLoop ::
  "env \<Rightarrow> (nat \<Rightarrow> world \<Rightarrow> world) \<Rightarrow> string \<Rightarrow> nat \<Rightarrow> nat \<Rightarrow> world \<Rightarrow> loopEnd \<times> nat \<times> world" where
  "monitorLoop E others commandID i slept w =
     (if i < 100
      then (case monitorPoll E commandID (others i w) of
              (Continue, w1) \<Rightarrow>
                monitorLoop E others commandID (i + 1) (slept + 100 * Millisecond) w1
            | (Return, w1) \<Rightarrow> (Return, slept + 100 * Millisecond, w1))
      else (Continue, slept, w))"
  by pat_completeness auto
termination
  by (relation "measure (\<lambda>(E, others, commandID, i, slept, w). 100 - i)") auto

declare monitorLoop.simps [simp del]

text \<open>The code after the loop.\<close>

definition monitorTimeout :: "env \<Rightarrow> string \<Rightarrow> world \<Rightarrow> world" where
  "monitorTimeout E commandID w =
     (case commands (vstore w) commandID of
        None \<Rightarrow> w
      | Some rec \<Rightarrow>
          (case time_Now E w of (now, w1) \<Rightarrow>
             let rec1 = rec\<lparr>Status := (Status rec)\<lparr>cs_State := CommandFailed,
                                                   cs_Error := ''timeout waiting for source command'',
                                                   cs_LastUpdatedAt := now\<rparr>\<rparr>;
                 w2 = setCommand commandID rec1 w1
             in persistLocked E
                  (case entities (vstore w2) (VirtualKey rec1) of
                     None \<Rightarrow> w2
                   | Some vent \<Rightarrow>
                       (case time_Now E w2 of (updated, w3) \<Rightarrow>
                          setEntity (VirtualKey rec1)
                            (withData (\<lambda>d. d\<lparr>SyncStatus := ''failed'',
                                              LastCommandID := commandID,
                                              UpdatedAt := updated\<rparr>) vent) w3))))"

definition monitorVirtualCommand :: "env \<Rightarrow> (nat \<Rightarrow> world \<Rightarrow> world) \<Rightarrow> string \<Rightarrow> world \<Rightarrow> world" where
  "monitorVirtualCommand E others commandID w =
     (case monitorLoop E others commandID 0 0 w of
        (Return, slept, w1) \<Rightarrow> w1
      | (Continue, slept, w1) \<Rightarrow> monitorTimeout E commandID w1)"

section \<open>Process start and the operations on commands\<close>

text \<open>
  \<open>run\<close> loads the store from the data directory before anything else; the package
  variables start with their zero values: an empty registry and \<open>idSeq = 0\<close>.
\<close>

definition startup :: "env \<Rightarrow> string \<Rightarrow> (string \<rightharpoonup> string) \<Rightarrow> string set \<Rightarrow> world" where
  "startup E dir fs ro =
     \<lparr>registry = Map.empty, vstore = storeOf (loadVirtualStore E dir fs), idSeq = 0, files = fs,
      unwritable = ro, ticks = 0, sent = []\<rparr>"

text \<open>
  The three operations that write the state of a stored command, as steps on the world:
  one turn of a monitor, the code after a monitor's loop, and the ingest of an event.
  Any interleaving of the tasks is a sequence of such steps.
\<close>

datatype operation =
    MonitorPoll string
  | MonitorTimeout string
  | IngestEvent string string string RawMessage string

fun perform :: "env \<Rightarrow> operation \<Rightarrow> world \<Rightarrow> world" where
  "perform E (MonitorPoll commandID) w = snd (monitorPoll E commandID w)"
| "perform E (MonitorTimeout commandID) w = monitorTimeout E commandID w"
| "perform E (IngestEvent pluginID deviceID entityID payload correlationID) w =
     snd (ingestEvent E pluginID deviceID entityID payload correlationID w)"

definition performAll :: "env \<Rightarrow> operation list \<Rightarrow> world \<Rightarrow> world" where
  "performAll E ops w = foldl (\<lambda>w1 op. perform E op w1) w ops"

section \<open>Observing a command\<close>

text \<open>The state of a virtual command as the status query reads it from the store.\<close>

definition commandState :: "world \<Rightarrow> string \<Rightarrow> CommandState option" where
  "commandState w commandID = map_option (\<lambda>rec. cs_State (Status rec)) (commands (vstore w) commandID)"

section \<open>A concrete scenario\<close>

text \<open>
  One environment and one world on which the definitions can be run: plugin \<open>p1\<close> is
  registered and owns the light \<open>p1/d1/e1\<close>, \<open>p2/d2/v1\<close> is a virtual light that
  mirrors it, and one virtual command for it is pending. The plugin answers within 5 ms,
  except that its second and later answers to \<open>devices/list\<close> take 3 s; the source
  command stays pending. Each decoder knows the one document the plugin sends and rejects
  the rest; the decoder of the \<open>type\<close> field knows four payloads, the binder accepts
  those four bodies, and the codec of the store's files knows the empty containers and
  those of the world below.
\<close>

definition sourceEntity :: Entity where
  \<open>sourceEntity =
     \<lparr>ent_ID = ''e1'', ent_DeviceID = ''d1'', ent_Domain = ''light'', ent_LocalName = ''Lamp'',
      ent_Actions = [''turn_on'', ''set_brightness''],
      ent_Data = \<lparr>Desired = ''{"on":false}'', Reported = ''{"on":false}'',
                  Effective = ''{"on":false}'', SyncStatus = ''in_sync'',
                  LastCommandID = [], LastEventID = [], UpdatedAt = 900\<rparr>\<rparr>\<close>

definition demoEntity :: Entity where
  \<open>demoEntity =
     \<lparr>ent_ID = ''v1'', ent_DeviceID = ''d2'', ent_Domain = ''light'', ent_LocalName = ''Lamp'',
      ent_Actions = [''turn_on'', ''set_brightness''],
      ent_Data = \<lparr>Desired = ''{"on":false}'', Reported = ''{"on":false}'',
                  Effective = ''{"on":false}'', SyncStatus = ''pending'',
                  LastCommandID = ''vcmd-1000-1'', LastEventID = [], UpdatedAt = 1000\<rparr>\<rparr>\<close>

definition demoVirtual :: virtualEntityRecord where
  "demoVirtual =
     \<lparr>OwnerPluginID = ''p2'', OwnerDeviceID = ''d2'', SourcePluginID = ''p1'',
      SourceDeviceID = ''d1'', SourceEntityID = ''e1'', MirrorSource = True,
      Entity = demoEntity\<rparr>"

definition demoCommand :: virtualCommandRecord where
  "demoCommand =
     \<lparr>vc_OwnerPluginID = ''p2'', vc_SourcePluginID = ''p1'', SourceCommand = ''src-1'',
      VirtualKey = ''p2|d2|v1'',
      Status = \<lparr>cs_CommandID = ''vcmd-1000-1'', cs_PluginID = ''p2'', cs_DeviceID = ''d2'',
                cs_EntityID = ''v1'', cs_EntityType = ''light'', cs_State = CommandPending,
                cs_Error = [], cs_CreatedAt = 1000, cs_LastUpdatedAt = 1000\<rparr>\<rparr>"

text \<open>
  What \<open>encoding/json\<close> gives back for the virtual entity of the scenario after
  \<open>MarshalIndent\<close> and \<open>Unmarshal\<close>: the indented encoding lays every JSON blob of
  the entity out over several lines, at the depth of the blob in the document, and the
  decoder takes the bytes of a \<open>json.RawMessage\<close> as they stand in the file.
\<close>

definition reloadedBlob :: RawMessage where
  \<open>reloadedBlob = ''{'' @ [CHR 0x0A] @ ''          "on": false'' @ [CHR 0x0A] @ ''        }''\<close>

definition demoReloaded :: virtualEntityRecord where
  "demoReloaded =
     withData (\<lambda>d. d\<lparr>Desired := reloadedBlob, Reported := reloadedBlob,
                      Effective := reloadedBlob\<rparr>) demoVirtual"

definition demoEnv :: env where
  \<open>demoEnv =
     \<lparr>wallclock = (\<lambda>n. 1000 + int n),
      bus = (\<lambda>n subject req.
         if Method req = ''entities/list'' then Some (5 * Millisecond, ''[{"id":"e1"}]'')
         else if Method req = ''entities/commands/create'' \<or> Method req = ''commands/status/get''
         then Some (5 * Millisecond, ''{"command_id":"src-1","state":"pending"}'')
         else if Method req = ''devices/list''
         then (if n = 0 then Some (5 * Millisecond, ''[]'') else Some (3 * Second, ''[]''))
         else None),
      json_Response = (\<lambda>data. \<lparr>resp_JSONRPC = ''2.0'', resp_ID = ''1'', Result = data, Error = None\<rparr>),
      json_EntityList = (\<lambda>data. if data = ''[{"id":"e1"}]'' then Inr [sourceEntity]
                                 else Inl ''unexpected end of JSON input''),
      json_CommandStatus = (\<lambda>data.
         if data = ''{"command_id":"src-1","state":"pending"}''
         then Inr \<lparr>cs_CommandID = ''src-1'', cs_PluginID = [], cs_DeviceID = [], cs_EntityID = [],
                   cs_EntityType = [], cs_State = ''pending'', cs_Error = [], cs_CreatedAt = 0,
                   cs_LastUpdatedAt = 0\<rparr>
         else Inl ''unexpected end of JSON input''),
      json_Type = (\<lambda>payload. if payload = ''{"type":"set_rgb"}'' then Inr ''set_rgb''
                              else if payload = ''{"type":"turn_on"}'' then Inr ''turn_on''
                              else if payload = ''{}'' then Inr []
                              else if payload = ''{"type":5}''
                              then Inl ''json: cannot unmarshal number into Go struct field .type of type string''
                              else Inl ''invalid character''),
      marshalEntities = (\<lambda>m. if m = Map.empty then ''{}''
                              else if m = [''p2|d2|v1'' \<mapsto> demoVirtual] then ''{"p2|d2|v1":{}}''
                              else []),
      unmarshalEntities = (\<lambda>s. if s = ''{}'' then Decoded Map.empty
                                else if s = ''{"p2|d2|v1":{}}''
                                then Decoded [''p2|d2|v1'' \<mapsto> demoReloaded]
                                else if s = ''null'' then DecodedNull
                                else DecodeError ''unexpected end of JSON input''),
      marshalCommands = (\<lambda>m. if m = Map.empty then ''{}''
                              else if m = [''vcmd-1000-1'' \<mapsto> demoCommand] then ''{"vcmd-1000-1":{}}''
                              else []),
      unmarshalCommands = (\<lambda>s. if s = ''{}'' then Decoded Map.empty
                                else if s = ''{"vcmd-1000-1":{}}''
                                then Decoded [''vcmd-1000-1'' \<mapsto> demoCommand]
                                else if s = ''null'' then DecodedNull
                                else DecodeError ''unexpected end of JSON input''),
      marshalJournal = (\<lambda>evs. if evs = [] then ''[]'' else []),
      unmarshalJournal = (\<lambda>s. if s = ''[]'' then Decoded []
                               else if s = ''null'' then DecodedNull
                               else DecodeError ''unexpected end of JSON input''),
      fmt_q = (\<lambda>s. [CHR 0x22] @ s @ [CHR 0x22]),
      gin_ShouldBindJSON = (\<lambda>body.
         if body = ''{"type":"set_rgb"}'' \<or> body = ''{"type":"turn_on"}'' \<or> body = ''{}''
            \<or> body = ''{"type":5}''
         then Inr body else Inl ''unexpected EOF'')\<rparr>\<close>

definition demoWorld :: world where
  "demoWorld =
     \<lparr>registry = [''p1'' \<mapsto> \<lparr>ManifestID = ''p1'', RPCSubject = ''sb.rpc.p1''\<rparr>],
      vstore = \<lparr>entities = [''p2|d2|v1'' \<mapsto> demoVirtual],
                commands = [''vcmd-1000-1'' \<mapsto> demoCommand],
                events = [], dataDir = ''data''\<rparr>,
      idSeq = 1, files = Map.empty, unwritable = {}, ticks = 0, sent = []\<rparr>"

text \<open>The same world with an empty action list on the virtual entity.\<close>

definition demoOpenWorld :: world where
  "demoOpenWorld =
     setEntity ''p2|d2|v1'' (demoVirtual\<lparr>Entity := demoEntity\<lparr>ent_Actions := []\<rparr>\<rparr>) demoWorld"

text \<open>A freshly started process with an empty data directory.\<close>

definition freshWorld :: world where
  "freshWorld =
     \<lparr>registry = Map.empty,
      vstore = \<lparr>entities = Map.empty, commands = Map.empty, events = [], dataDir = ''data''\<rparr>,
      idSeq = 0, files = Map.empty, unwritable = {}, ticks = 0, sent = []\<rparr>"

text \<open>A request for a virtual entity on \<open>p2/d2\<close> whose source \<open>p1/d1/e7\<close> does not exist.\<close>

definition demoRequest :: createRequest where
  "demoRequest =
     \<lparr>rq_ID = ''v9'', rq_LocalName = [], rq_Actions = [], rq_SourcePluginID = ''p1'',
      rq_SourceDeviceID = ''d1'', rq_SourceEntityID = ''e7'', rq_MirrorSource = None\<rparr>"

text \<open>The request by which the monitor of the pending command asks for the source status.\<close>

definition demoStatusRequest :: "string \<times> Request \<times> nat" where
  "demoStatusRequest =
     (''sb.rpc.p1'',
      \<lparr>req_JSONRPC = ''2.0'', req_ID = Some ''1'', Method = ''commands/status/get'',
       Params = [(''command_id'', ''src-1'')]\<rparr>,
      2 * Second)"

section \<open>Proofs: the event journal\<close>

lemma appendEventLocked_drop:
  "appendEventLocked evs evt = drop (length evs + 1 - 5000) (evs @ [evt])"
  by (simp add: appendEventLocked_def Let_def)

lemma appendEventLocked_length: "length (appendEventLocked evs evt) \<le> 5000"
  by (simp add: appendEventLocked_drop)

lemma drop_snoc_shift:
  "drop (length (drop k ys) + 1 - 5000) (drop k ys @ [x]) = drop (length ys + 1 - 5000) (ys @ [x])"
  if "k = length ys - 5000" for ys :: "'e list"
proof (cases "length ys \<le> 5000")
  case True
  then show ?thesis using that by simp
next
  case False
  then have n: "length ys = k + 5000" using that by simp
  then have len: "length (drop k ys) = 5000" by simp
  have lhs: "drop (length (drop k ys) + 1 - 5000) (drop k ys @ [x]) = drop (Suc k) ys @ [x]"
    unfolding len by (simp add: drop_Suc tl_drop n)
  have rhs: "drop (length ys + 1 - 5000) (ys @ [x]) = drop (Suc k) ys @ [x]"
    using n by simp
  show ?thesis unfolding lhs rhs ..
qed

lemma inject_suffix:
  "inject evs new = drop (length evs + length new - 5000) (evs @ new)" if "length evs \<le> 5000"
proof (induction new rule: rev_induct)
  case Nil
  then show ?case using that by (simp add: inject_def)
next
  case (snoc x xs)
  have step: "inject evs (xs @ [x]) = appendEventLocked (inject evs xs) x"
    by (simp add: inject_def)
  show ?case
    unfolding step appendEventLocked_drop snoc
    using drop_snoc_shift [of "length (evs @ xs) - 5000" "evs @ xs" x] by simp
qed

text \<open>
  Claim C5. From an empty journal, after every sequence of appends the journal holds at
  most 5000 events and is exactly the most recent suffix of what was appended; a single
  append never leaves more than 5000 entries, whatever the journal was before; and after
  5001 injected events the journal has length 5000 and starts with the second event.
\<close>

theorem journal_capped_suffix:
  "length (appendEventLocked evs evt) \<le> 5000
   \<and> length (inject [] new) \<le> 5000
   \<and> inject [] new = drop (length new - 5000) new
   \<and> (length new = 5001 \<longrightarrow> length (inject [] new) = 5000 \<and> hd (inject [] new) = new ! 1)"
proof -
  have suffix: "inject [] new = drop (length new - 5000) new"
    using inject_suffix [of "[]" new] by simp
  have "length new = 5001 \<Longrightarrow> hd (drop (length new - 5000) new) = new ! 1"
    by (simp add: hd_drop_conv_nth)
  then show ?thesis
    using suffix by (auto simp: appendEventLocked_length)
qed

theorem journal_capped_suffix_witness:
  "length (inject [] [0 ..< 5001]) = 5000 \<and> hd (inject [] [0 ..< 5001]) = (1::nat)"
  using journal_capped_suffix [of "[]" "0::nat" "[0 ..< 5001]"] by simp

section \<open>Proofs: event names\<close>

text \<open>
  Claim C6. The name of an event is a function of the entity type, the payload and the
  virtual flag: the prefix follows the flag, and the suffix is \<open>.lightchange\<close> exactly
  when the type is \<open>light\<close> and the payload decodes with the type field \<open>set_rgb\<close>;
  with a payload that does not decode the suffix is \<open>.statechange\<close>.
\<close>

theorem classifyEventName_spec:
  "classifyEventName E entityType payload isVirtual =
     (if isVirtual then ''entity.virtual'' else ''entity.original'')
     @ (if entityType = ''light'' \<and> json_Type E payload = Inr ''set_rgb''
        then ''.lightchange'' else ''.statechange'')
   \<and> classifyEventName (E\<lparr>json_Type := \<lambda>p. Inl err\<rparr>) entityType payload isVirtual =
       (if isVirtual then ''entity.virtual'' else ''entity.original'') @ ''.statechange''"
  by (simp add: classifyEventName_def light_Type_def light_ActionSetRGB_def Let_def
           split: sum.split)

theorem classifyEventName_spec_witness:
  \<open>classifyEventName demoEnv ''light'' ''{"type":"set_rgb"}'' False = ''entity.original.lightchange''
   \<and> classifyEventName demoEnv ''light'' ''{"type":"turn_on"}'' True = ''entity.virtual.statechange''
   \<and> classifyEventName demoEnv ''light'' ''{"type":'' False = ''entity.original.statechange''
   \<and> classifyEventName demoEnv ''switch'' ''{"type":"set_rgb"}'' False = ''entity.original.statechange''\<close>
proof -
  have dec: \<open>json_Type demoEnv ''{"type":"set_rgb"}'' = Inr ''set_rgb''\<close>
    \<open>json_Type demoEnv ''{"type":"turn_on"}'' = Inr ''turn_on''\<close>
    \<open>json_Type demoEnv ''{"type":'' = Inl ''invalid character''\<close>
    by (simp_all add: demoEnv_def)
  show ?thesis
    using classifyEventName_spec [of demoEnv "''light''" \<open>''{"type":"set_rgb"}''\<close> False]
      classifyEventName_spec [of demoEnv "''light''" \<open>''{"type":"turn_on"}''\<close> True]
      classifyEventName_spec [of demoEnv "''light''" \<open>''{"type":''\<close> False]
      classifyEventName_spec [of demoEnv "''switch''" \<open>''{"type":"set_rgb"}''\<close> False]
    by (simp add: dec)
qed

section \<open>Proofs: the RPC router\<close>

text \<open>
  Claim C4. For a plugin that is not in the registry the router returns the error
  \<open>{code: -32000, message: "plugin not registered"}\<close> and leaves the world, the log
  of bus requests included, as it was. For a registered plugin it sends one request with
  a timeout of 2000 ms; when no reply arrives within that time the result is
  \<open>{code: -32000, message: "plugin timeout"}\<close>, otherwise it is the decoded reply as
  it is, with whatever error the plugin put into it.
\<close>

theorem routeRPC_result:
  "(registry w pluginID = None \<longrightarrow>
      routeRPC E pluginID method params w =
        (\<lparr>resp_JSONRPC = ''2.0'', resp_ID = [], Result = [],
          Error = Some \<lparr>Code = - 32000, Message = ''plugin not registered''\<rparr>\<rparr>, w))
   \<and> (registry w pluginID = Some reg \<longrightarrow>
      snd (routeRPC E pluginID method params w) =
        w\<lparr>sent := sent w @ [(RPCSubject reg,
              \<lparr>req_JSONRPC = ''2.0'', req_ID = Some ''1'', Method = method, Params = params\<rparr>,
              2000 * Millisecond)]\<rparr>
      \<and> fst (routeRPC E pluginID method params w) =
          (case bus E (length (sent w)) (RPCSubject reg)
                  \<lparr>req_JSONRPC = ''2.0'', req_ID = Some ''1'', Method = method, Params = params\<rparr> of
             None \<Rightarrow> \<lparr>resp_JSONRPC = ''2.0'', resp_ID = [], Result = [],
                       Error = Some \<lparr>Code = - 32000, Message = ''plugin timeout''\<rparr>\<rparr>
           | Some (latency, data) \<Rightarrow>
               if latency \<le> 2000 * Millisecond then json_Response E data
               else \<lparr>resp_JSONRPC = ''2.0'', resp_ID = [], Result = [],
                     Error = Some \<lparr>Code = - 32000, Message = ''plugin timeout''\<rparr>\<rparr>))"
  by (simp add: routeRPC_def nc_Request_def errorResponse_def JSONRPCVersion_def Second_def
        Let_def split: option.split prod.split)

theorem routeRPC_result_witness:
  \<open>routeRPC demoEnv ''p9'' ''devices/list'' [] demoWorld =
     (\<lparr>resp_JSONRPC = ''2.0'', resp_ID = [], Result = [],
       Error = Some \<lparr>Code = - 32000, Message = ''plugin not registered''\<rparr>\<rparr>, demoWorld)
   \<and> fst (routeRPC demoEnv ''p1'' ''devices/list'' [] demoWorld) =
       \<lparr>resp_JSONRPC = ''2.0'', resp_ID = ''1'',
        Result = ''[]'', Error = None\<rparr>
   \<and> length (sent (snd (routeRPC demoEnv ''p1'' ''devices/list'' [] demoWorld))) = 1
   \<and> fst (routeRPC demoEnv ''p1'' ''devices/list'' []
             (snd (routeRPC demoEnv ''p1'' ''devices/list'' [] demoWorld))) =
       \<lparr>resp_JSONRPC = ''2.0'', resp_ID = [], Result = [],
        Error = Some \<lparr>Code = - 32000, Message = ''plugin timeout''\<rparr>\<rparr>\<close>
proof -
  have unreg: "registry demoWorld ''p9'' = None"
    by (simp add: demoWorld_def)
  have reg: "registry demoWorld ''p1'' = Some \<lparr>ManifestID = ''p1'', RPCSubject = ''sb.rpc.p1''\<rparr>"
    by (simp add: demoWorld_def)
  note first = routeRPC_result [of demoWorld "''p1''" demoEnv "''devices/list''" "[]"
      "\<lparr>ManifestID = ''p1'', RPCSubject = ''sb.rpc.p1''\<rparr>"]
  have w1: "snd (routeRPC demoEnv ''p1'' ''devices/list'' [] demoWorld) =
      demoWorld\<lparr>sent := [(''sb.rpc.p1'',
         \<lparr>req_JSONRPC = ''2.0'', req_ID = Some ''1'', Method = ''devices/list'', Params = []\<rparr>,
         2000 * Millisecond)]\<rparr>"
    using first reg by (simp add: demoWorld_def)
  have a: "routeRPC demoEnv ''p9'' ''devices/list'' [] demoWorld =
     (\<lparr>resp_JSONRPC = ''2.0'', resp_ID = [], Result = [],
       Error = Some \<lparr>Code = - 32000, Message = ''plugin not registered''\<rparr>\<rparr>, demoWorld)"
    using routeRPC_result [of demoWorld "''p9''" demoEnv "''devices/list''" "[]"] unreg by simp
  have b: \<open>fst (routeRPC demoEnv ''p1'' ''devices/list'' [] demoWorld) =
       \<lparr>resp_JSONRPC = ''2.0'', resp_ID = ''1'',
        Result = ''[]'', Error = None\<rparr>\<close>
    using first reg by (simp add: demoWorld_def demoEnv_def Millisecond_def)
  have c: "fst (routeRPC demoEnv ''p1'' ''devices/list'' []
             (snd (routeRPC demoEnv ''p1'' ''devices/list'' [] demoWorld))) =
       \<lparr>resp_JSONRPC = ''2.0'', resp_ID = [], Result = [],
        Error = Some \<lparr>Code = - 32000, Message = ''plugin timeout''\<rparr>\<rparr>"
    unfolding w1
    using routeRPC_result [of "demoWorld\<lparr>sent := [(''sb.rpc.p1'',
         \<lparr>req_JSONRPC = ''2.0'', req_ID = Some ''1'', Method = ''devices/list'', Params = []\<rparr>,
         2000 * Millisecond)]\<rparr>" "''p1''" demoEnv "''devices/list''" "[]"
      "\<lparr>ManifestID = ''p1'', RPCSubject = ''sb.rpc.p1''\<rparr>"]
    by (simp add: demoWorld_def demoEnv_def Millisecond_def Second_def)
  show ?thesis using a b c w1 by simp
qed

section \<open>Proofs: command dispatch\<close>

lemma containsAction_set: "containsAction actions action = (action \<in> set actions)"
  by (induction actions) auto

lemma forwardVirtualCommand_errors:
  "fst (forwardVirtualCommand E pluginID deviceID entityID vrec payload w) \<noteq>
     Inl (HTTPError StatusForbidden (ErrorText (''action '' @ rest)))"
  by (simp add: forwardVirtualCommand_def Let_def split: prod.split option.split sum.split)

text \<open>
  Claim C7. A command whose body does not bind as JSON is refused with status 400 before
  the store is read, for a virtual entity and for any other. A bound command for a
  virtual entity is refused with status 400 when its payload does not decode into the
  \<open>type\<close> probe or has an empty \<open>type\<close>; it is refused with status 403 and the message
  \<open>action "..." not supported by this virtual entity\<close> when the entity's action list
  is not empty and does not hold the payload's type; and with an empty action list the
  check is passed whatever the type is: the handler goes on to forward the command to
  the source, and no result of that is the action error. Every refusal leaves the world
  as it was.
\<close>

theorem sendCommand_virtual_checks:
  "(gin_ShouldBindJSON E body = Inl err \<longrightarrow>
      sendCommand E pluginID deviceID entityID body w =
        (Inl (HTTPError 400 (ErrorText err)), w))
   \<and> (gin_ShouldBindJSON E body = Inr payload
       \<and> entities (vstore w) (entityKey pluginID deviceID entityID) = Some vrec \<longrightarrow>
         (json_Type E payload = Inl err \<longrightarrow>
            sendCommand E pluginID deviceID entityID body w =
              (Inl (HTTPError 400 (ErrorText err)), w))
       \<and> (json_Type E payload = Inr [] \<longrightarrow>
            sendCommand E pluginID deviceID entityID body w =
              (Inl (HTTPError 400 (ErrorText ''payload.type is required'')), w))
       \<and> (json_Type E payload = Inr action \<and> action \<noteq> []
            \<and> ent_Actions (Entity vrec) \<noteq> [] \<and> action \<notin> set (ent_Actions (Entity vrec)) \<longrightarrow>
            sendCommand E pluginID deviceID entityID body w =
              (Inl (HTTPError 403 (ErrorText
                 (''action '' @ fmt_q E action @ '' not supported by this virtual entity''))), w))
       \<and> (json_Type E payload = Inr action \<and> action \<noteq> [] \<and> ent_Actions (Entity vrec) = [] \<longrightarrow>
            sendCommand E pluginID deviceID entityID body w =
              forwardVirtualCommand E pluginID deviceID entityID vrec payload w
            \<and> fst (sendCommand E pluginID deviceID entityID body w) \<noteq>
              Inl (HTTPError 403 (ErrorText
                 (''action '' @ fmt_q E action @ '' not supported by this virtual entity'')))))"
proof -
  have parse_err: "json_Type E payload = Inl err \<Longrightarrow> parseActionType E payload = Inl err"
    by (simp add: parseActionType_def)
  have parse_empty: "json_Type E payload = Inr [] \<Longrightarrow>
      parseActionType E payload = Inl ''payload.type is required''"
    by (simp add: parseActionType_def)
  have parse_ok: "json_Type E payload = Inr action \<Longrightarrow> action \<noteq> [] \<Longrightarrow>
      parseActionType E payload = Inr action"
    by (simp add: parseActionType_def)
  have unbound: "gin_ShouldBindJSON E body = Inl err \<Longrightarrow>
      sendCommand E pluginID deviceID entityID body w =
        (Inl (HTTPError 400 (ErrorText err)), w)"
    by (simp add: sendCommand_def StatusBadRequest_def)
  have bound: "gin_ShouldBindJSON E body = Inr payload \<Longrightarrow>
      entities (vstore w) (entityKey pluginID deviceID entityID) = Some vrec \<Longrightarrow>
      sendCommand E pluginID deviceID entityID body w =
        (case parseActionType E payload of
           Inl e \<Rightarrow> (Inl (HTTPError 400 (ErrorText e)), w)
         | Inr actionType \<Rightarrow>
             if ent_Actions (Entity vrec) \<noteq> [] \<and> actionType \<notin> set (ent_Actions (Entity vrec))
             then (Inl (HTTPError 403 (ErrorText
                     (''action '' @ fmt_q E actionType @ '' not supported by this virtual entity''))), w)
             else forwardVirtualCommand E pluginID deviceID entityID vrec payload w)"
    by (simp add: sendCommand_def Let_def containsAction_set StatusBadRequest_def
          StatusForbidden_def split: sum.split)
  show ?thesis
    using unbound bound parse_err parse_empty parse_ok
      forwardVirtualCommand_errors [of E pluginID deviceID entityID vrec payload w]
    by (auto simp: StatusForbidden_def)
qed

theorem sendCommand_virtual_checks_witness:
  \<open>sendCommand demoEnv ''p2'' ''d2'' ''v1'' ''{"type":'' demoWorld =
     (Inl (HTTPError 400 (ErrorText ''unexpected EOF'')), demoWorld)
   \<and> sendCommand demoEnv ''p1'' ''d1'' ''e1'' ''{"type":'' demoWorld =
     (Inl (HTTPError 400 (ErrorText ''unexpected EOF'')), demoWorld)
   \<and> sendCommand demoEnv ''p2'' ''d2'' ''v1'' ''{"type":5}'' demoWorld =
     (Inl (HTTPError 400 (ErrorText
        ''json: cannot unmarshal number into Go struct field .type of type string'')), demoWorld)
   \<and> sendCommand demoEnv ''p2'' ''d2'' ''v1'' ''{}'' demoWorld =
     (Inl (HTTPError 400 (ErrorText ''payload.type is required'')), demoWorld)
   \<and> sendCommand demoEnv ''p2'' ''d2'' ''v1'' ''{"type":"set_rgb"}'' demoWorld =
     (Inl (HTTPError 403 (ErrorText ''action "set_rgb" not supported by this virtual entity'')),
      demoWorld)
   \<and> sendCommand demoEnv ''p2'' ''d2'' ''v1'' ''{"type":"set_rgb"}'' demoOpenWorld =
     forwardVirtualCommand demoEnv ''p2'' ''d2'' ''v1''
       (demoVirtual\<lparr>Entity := demoEntity\<lparr>ent_Actions := []\<rparr>\<rparr>) ''{"type":"set_rgb"}'' demoOpenWorld\<close>
proof -
  have bind: \<open>gin_ShouldBindJSON demoEnv ''{"type":'' = Inl ''unexpected EOF''\<close>
    \<open>gin_ShouldBindJSON demoEnv ''{"type":5}'' = Inr ''{"type":5}''\<close>
    \<open>gin_ShouldBindJSON demoEnv ''{}'' = Inr ''{}''\<close>
    \<open>gin_ShouldBindJSON demoEnv ''{"type":"set_rgb"}'' = Inr ''{"type":"set_rgb"}''\<close>
    by (simp_all add: demoEnv_def)
  have dec: \<open>json_Type demoEnv ''{"type":"set_rgb"}'' = Inr ''set_rgb''\<close>
    \<open>json_Type demoEnv ''{}'' = Inr []\<close>
    \<open>json_Type demoEnv ''{"type":5}'' =
       Inl ''json: cannot unmarshal number into Go struct field .type of type string''\<close>
    \<open>fmt_q demoEnv ''set_rgb'' = ''"set_rgb"''\<close>
    by (simp_all add: demoEnv_def)
  have virt: "entities (vstore demoWorld) (entityKey ''p2'' ''d2'' ''v1'') = Some demoVirtual"
    by (simp add: demoWorld_def entityKey_def)
  have acts: "ent_Actions (Entity demoVirtual) = [''turn_on'', ''set_brightness'']"
    by (simp add: demoVirtual_def demoEntity_def)
  have virt2: "entities (vstore demoOpenWorld) (entityKey ''p2'' ''d2'' ''v1'') =
      Some (demoVirtual\<lparr>Entity := demoEntity\<lparr>ent_Actions := []\<rparr>\<rparr>)"
    by (simp add: demoOpenWorld_def setEntity_def entityKey_def)
  have a: \<open>sendCommand demoEnv ''p2'' ''d2'' ''v1'' ''{"type":'' demoWorld =
     (Inl (HTTPError 400 (ErrorText ''unexpected EOF'')), demoWorld)\<close>
    using sendCommand_virtual_checks [where E = demoEnv and body = \<open>''{"type":''\<close>
        and err = "''unexpected EOF''" and pluginID = "''p2''" and deviceID = "''d2''"
        and entityID = "''v1''" and w = demoWorld] bind
    by simp
  have a': \<open>sendCommand demoEnv ''p1'' ''d1'' ''e1'' ''{"type":'' demoWorld =
     (Inl (HTTPError 400 (ErrorText ''unexpected EOF'')), demoWorld)\<close>
    using sendCommand_virtual_checks [where E = demoEnv and body = \<open>''{"type":''\<close>
        and err = "''unexpected EOF''" and pluginID = "''p1''" and deviceID = "''d1''"
        and entityID = "''e1''" and w = demoWorld] bind
    by simp
  have b: \<open>sendCommand demoEnv ''p2'' ''d2'' ''v1'' ''{"type":5}'' demoWorld =
     (Inl (HTTPError 400 (ErrorText
        ''json: cannot unmarshal number into Go struct field .type of type string'')), demoWorld)\<close>
    using sendCommand_virtual_checks [where E = demoEnv and body = \<open>''{"type":5}''\<close>
        and payload = \<open>''{"type":5}''\<close>
        and err = "''json: cannot unmarshal number into Go struct field .type of type string''"
        and pluginID = "''p2''" and deviceID = "''d2''" and entityID = "''v1''"
        and w = demoWorld and vrec = demoVirtual] bind dec virt
    by simp
  have c: \<open>sendCommand demoEnv ''p2'' ''d2'' ''v1'' ''{}'' demoWorld =
     (Inl (HTTPError 400 (ErrorText ''payload.type is required'')), demoWorld)\<close>
    using sendCommand_virtual_checks [where E = demoEnv and body = \<open>''{}''\<close>
        and payload = \<open>''{}''\<close> and pluginID = "''p2''" and deviceID = "''d2''"
        and entityID = "''v1''" and w = demoWorld and vrec = demoVirtual] bind dec virt
    by simp
  have d: \<open>sendCommand demoEnv ''p2'' ''d2'' ''v1'' ''{"type":"set_rgb"}'' demoWorld =
     (Inl (HTTPError 403 (ErrorText ''action "set_rgb" not supported by this virtual entity'')),
      demoWorld)\<close>
    using sendCommand_virtual_checks [where E = demoEnv and body = \<open>''{"type":"set_rgb"}''\<close>
        and payload = \<open>''{"type":"set_rgb"}''\<close> and action = "''set_rgb''"
        and pluginID = "''p2''" and deviceID = "''d2''" and entityID = "''v1''"
        and w = demoWorld and vrec = demoVirtual] bind dec virt acts
    by simp
  have e: \<open>sendCommand demoEnv ''p2'' ''d2'' ''v1'' ''{"type":"set_rgb"}'' demoOpenWorld =
     forwardVirtualCommand demoEnv ''p2'' ''d2'' ''v1''
       (demoVirtual\<lparr>Entity := demoEntity\<lparr>ent_Actions := []\<rparr>\<rparr>) ''{"type":"set_rgb"}'' demoOpenWorld\<close>
    using sendCommand_virtual_checks [where E = demoEnv and body = \<open>''{"type":"set_rgb"}''\<close>
        and payload = \<open>''{"type":"set_rgb"}''\<close> and action = "''set_rgb''"
        and pluginID = "''p2''" and deviceID = "''d2''" and entityID = "''v1''"
        and w = demoOpenWorld and vrec = "demoVirtual\<lparr>Entity := demoEntity\<lparr>ent_Actions := []\<rparr>\<rparr>"]
      bind dec virt2
    by simp
  show ?thesis by (intro conjI a a' b c d e)
qed

section \<open>Proofs: creating a virtual entity\<close>

lemma vstore_routeRPC [simp]:
  "vstore (snd (routeRPC E p m ps w)) = vstore w"
  "files (snd (routeRPC E p m ps w)) = files w"
  by (simp_all add: routeRPC_def nc_Request_def Let_def split: option.split prod.split)

lemma vstore_findEntity [simp]:
  "vstore (snd (findEntity E p d e w)) = vstore w"
  "files (snd (findEntity E p d e w)) = files w"
proof -
  obtain resp w1 where r: "routeRPC E p ''entities/list'' [(''device_id'', d)] w = (resp, w1)"
    by (cases "routeRPC E p ''entities/list'' [(''device_id'', d)] w")
  have "vstore w1 = vstore w" "files w1 = files w"
    using vstore_routeRPC [of E p "''entities/list''" "[(''device_id'', d)]" w] r by simp_all
  then show "vstore (snd (findEntity E p d e w)) = vstore w"
    "files (snd (findEntity E p d e w)) = files w"
    using r by (simp_all add: findEntity_def split: sum.split option.split)
qed

lemma findEntity_fails:
  assumes rpc: "routeRPC E p ''entities/list'' [(''device_id'', d)] w = (resp, w1)"
    and bad: "Error resp \<noteq> None \<or> (\<exists>m. json_EntityList E (Result resp) = Inl m)
           \<or> (\<exists>ents. json_EntityList E (Result resp) = Inr ents \<and> (\<forall>x \<in> set ents. ent_ID x \<noteq> e))"
  shows "\<exists>m. findEntity E p d e w = (Inl m, w1)"
proof (cases "parseEntities E resp")
  case (Inl m)
  then show ?thesis using rpc by (simp add: findEntity_def)
next
  case (Inr ents)
  then have "Error resp = None" and dec: "json_EntityList E (Result resp) = Inr ents"
    by (auto simp: parseEntities_def split: option.splits)
  with bad have "\<forall>x \<in> set ents. ent_ID x \<noteq> e" by auto
  then have "find (\<lambda>x. ent_ID x = e) ents = None"
    by (simp add: find_None_iff)
  then show ?thesis using rpc Inr by (simp add: findEntity_def)
qed

text \<open>
  Claim C2. A creation request that gets as far as the lookup of the source entity (its
  required fields are there, the owner plugin does not report the ID, the store has no
  entry at the key) and whose lookup fails (the reply carries an error, cannot be decoded
  or lists no entity with the source ID) is refused with status 403 and the message
  \<open>source entity not found\<close>; the store and the files are as they were before.
\<close>

theorem create_source_not_found:
  assumes fields: "rq_ID req \<noteq> []" "rq_SourcePluginID req \<noteq> []" "rq_SourceDeviceID req \<noteq> []"
      "rq_SourceEntityID req \<noteq> []"
    and owner: "findEntity E pluginID deviceID (rq_ID req) w = (Inl err, w1)"
    and fresh: "entities (vstore w) (entityKey pluginID deviceID (rq_ID req)) = None"
    and lookup: "routeRPC E (rq_SourcePluginID req) ''entities/list''
                   [(''device_id'', rq_SourceDeviceID req)] w1 = (resp, w2)"
    and missing: "Error resp \<noteq> None \<or> (\<exists>m. json_EntityList E (Result resp) = Inl m)
           \<or> (\<exists>ents. json_EntityList E (Result resp) = Inr ents
                 \<and> (\<forall>x \<in> set ents. ent_ID x \<noteq> rq_SourceEntityID req))"
  shows "createVirtualEntityHandler E pluginID deviceID req w =
           (Inl (HTTPError 403 (ErrorText ''source entity not found'')), w2)
         \<and> vstore w2 = vstore w \<and> files w2 = files w"
proof -
  obtain m where src: "findEntity E (rq_SourcePluginID req) (rq_SourceDeviceID req)
      (rq_SourceEntityID req) w1 = (Inl m, w2)"
    using findEntity_fails [OF lookup missing] by blast
  have s1: "vstore w1 = vstore w" "files w1 = files w"
    using vstore_findEntity [of E pluginID deviceID "rq_ID req" w] owner by simp_all
  have s2: "vstore w2 = vstore w1" "files w2 = files w1"
    using vstore_findEntity [of E "rq_SourcePluginID req" "rq_SourceDeviceID req"
        "rq_SourceEntityID req" w1] src by simp_all
  have "createVirtualEntityHandler E pluginID deviceID req w =
           (Inl (HTTPError 403 (ErrorText ''source entity not found'')), w2)"
    using fields owner fresh src s1
    by (simp add: createVirtualEntityHandler_def Let_def StatusForbidden_def)
  then show ?thesis using s1 s2 by simp
qed

theorem create_source_not_found_witness:
  \<open>createVirtualEntityHandler demoEnv ''p2'' ''d2'' demoRequest demoWorld =
     (Inl (HTTPError 403 (ErrorText ''source entity not found'')),
      demoWorld\<lparr>sent := [(''sb.rpc.p1'',
         \<lparr>req_JSONRPC = ''2.0'', req_ID = Some ''1'', Method = ''entities/list'',
          Params = [(''device_id'', ''d1'')]\<rparr>, 2 * Second)]\<rparr>)\<close>
proof -
  let ?w2 = "demoWorld\<lparr>sent := [(''sb.rpc.p1'',
         \<lparr>req_JSONRPC = ''2.0'', req_ID = Some ''1'', Method = ''entities/list'',
          Params = [(''device_id'', ''d1'')]\<rparr>, 2 * Second)]\<rparr>"
  let ?resp = \<open>\<lparr>resp_JSONRPC = ''2.0'', resp_ID = ''1'', Result = ''[{"id":"e1"}]'', Error = None\<rparr>\<close>
  have fields: "rq_ID demoRequest \<noteq> []" "rq_SourcePluginID demoRequest \<noteq> []"
    "rq_SourceDeviceID demoRequest \<noteq> []" "rq_SourceEntityID demoRequest \<noteq> []"
    by (simp_all add: demoRequest_def)
  have owner: "findEntity demoEnv ''p2'' ''d2'' (rq_ID demoRequest) demoWorld =
      (Inl ''plugin not registered'', demoWorld)"
    by (simp add: findEntity_def routeRPC_def parseEntities_def errorResponse_def demoWorld_def)
  have fresh: "entities (vstore demoWorld) (entityKey ''p2'' ''d2'' (rq_ID demoRequest)) = None"
    by (simp add: demoWorld_def entityKey_def demoRequest_def)
  have lookup: "routeRPC demoEnv (rq_SourcePluginID demoRequest) ''entities/list''
      [(''device_id'', rq_SourceDeviceID demoRequest)] demoWorld = (?resp, ?w2)"
    by (simp add: routeRPC_def nc_Request_def demoWorld_def demoRequest_def demoEnv_def
          JSONRPCVersion_def Second_def Millisecond_def)
  have missing: "Error ?resp \<noteq> None \<or> (\<exists>m. json_EntityList demoEnv (Result ?resp) = Inl m)
      \<or> (\<exists>ents. json_EntityList demoEnv (Result ?resp) = Inr ents
            \<and> (\<forall>x \<in> set ents. ent_ID x \<noteq> rq_SourceEntityID demoRequest))"
    by (simp add: demoEnv_def sourceEntity_def demoRequest_def)
  show ?thesis
    using create_source_not_found [OF fields owner fresh lookup missing] by simp
qed

section \<open>Proofs: persistence\<close>

lemma vstore_os_WriteFile [simp]: "vstore (os_WriteFile path data w) = vstore w"
  by (simp add: os_WriteFile_def)

lemma unwritable_os_WriteFile [simp]: "unwritable (os_WriteFile path data w) = unwritable w"
  by (simp add: os_WriteFile_def)

lemma vstore_persistLocked [simp]: "vstore (persistLocked E w) = vstore w"
  by (simp add: persistLocked_def Let_def)

lemma files_persistLocked:
  "files (persistLocked E w) =
     (let vs = vstore w;
          p1 = virtualFile (dataDir vs) ''virtual_entities.json'';
          p2 = virtualFile (dataDir vs) ''virtual_commands.json'';
          p3 = virtualFile (dataDir vs) ''event_journal.json'';
          f1 = (if p1 \<in> unwritable w then files w else (files w)(p1 \<mapsto> marshalEntities E (entities vs)));
          f2 = (if p2 \<in> unwritable w then f1 else f1(p2 \<mapsto> marshalCommands E (commands vs)))
      in if p3 \<in> unwritable w then f2 else f2(p3 \<mapsto> marshalJournal E (events vs)))"
  by (simp add: persistLocked_def os_WriteFile_def Let_def)

lemma virtualFile_distinct [simp]:
  "virtualFile dir ''virtual_entities.json'' \<noteq> virtualFile dir ''virtual_commands.json''"
  "virtualFile dir ''virtual_entities.json'' \<noteq> virtualFile dir ''event_journal.json''"
  "virtualFile dir ''virtual_commands.json'' \<noteq> virtualFile dir ''event_journal.json''"
  "virtualFile dir ''virtual_commands.json'' \<noteq> virtualFile dir ''virtual_entities.json''"
  "virtualFile dir ''event_journal.json'' \<noteq> virtualFile dir ''virtual_entities.json''"
  "virtualFile dir ''event_journal.json'' \<noteq> virtualFile dir ''virtual_commands.json''"
  by (simp_all add: virtualFile_def)

lemma persisted_files:
  assumes "virtualFile (dataDir (vstore w)) ''virtual_entities.json'' \<notin> unwritable w"
    and "virtualFile (dataDir (vstore w)) ''virtual_commands.json'' \<notin> unwritable w"
    and "virtualFile (dataDir (vstore w)) ''event_journal.json'' \<notin> unwritable w"
  shows "files (persistLocked E w) (virtualFile (dataDir (vstore w)) ''virtual_entities.json'') =
           Some (marshalEntities E (entities (vstore w)))"
    and "files (persistLocked E w) (virtualFile (dataDir (vstore w)) ''virtual_commands.json'') =
           Some (marshalCommands E (commands (vstore w)))"
    and "files (persistLocked E w) (virtualFile (dataDir (vstore w)) ''event_journal.json'') =
           Some (marshalJournal E (events (vstore w)))"
  using assms by (simp_all add: files_persistLocked Let_def)







section \<open>Proofs: event ingest\<close>

lemma nextID_world:
  "snd (nextID E prefix w) = w\<lparr>ticks := ticks w + 1, idSeq := idSeq w + 1\<rparr>"
  by (simp add: nextID_def time_Now_def Let_def)

lemma correlate_entity:
  "correlationID \<noteq> [] \<Longrightarrow>
     fst (correlate E correlationID vrec w) = withData (\<lambda>d. d\<lparr>LastCommandID := correlationID\<rparr>) vrec"
  by (simp add: correlate_def Let_def split: option.split prod.split)

lemma correlate_world:
  "correlationID \<noteq> [] \<Longrightarrow>
     snd (correlate E correlationID vrec w) =
       (case commands (vstore w) correlationID of
          None \<Rightarrow> w
        | Some cmdRec \<Rightarrow>
            setCommand correlationID
              (cmdRec\<lparr>Status := (Status cmdRec)\<lparr>cs_State := CommandSucceeded,
                                                cs_LastUpdatedAt := wallclock E (ticks w)\<rparr>\<rparr>)
              (w\<lparr>ticks := ticks w + 1\<rparr>))"
  by (simp add: correlate_def time_Now_def Let_def split: option.split prod.split)

lemma ingestEvent_virtual:
  assumes virt: "entities (vstore w) (entityKey pluginID deviceID entityID) = Some vrec"
  shows "ingestEvent E pluginID deviceID entityID payload correlationID w =
    (let key = entityKey pluginID deviceID entityID;
         eventID = fst (nextID E ''vevt'' w);
         w1 = snd (nextID E ''vevt'' w);
         c = correlate E correlationID
               (withData (\<lambda>d. d\<lparr>Reported := payload, Effective := payload,
                                 SyncStatus := ''in_sync'', LastEventID := eventID\<rparr>) vrec) w1;
         w2 = snd c;
         vrec2 = withData (\<lambda>d. d\<lparr>UpdatedAt := wallclock E (ticks w2)\<rparr>) (fst c);
         evt = \<lparr>Name = classifyEventName E (ent_Domain (Entity vrec2)) payload True,
                ev_PluginID = pluginID, ev_DeviceID = deviceID, ev_EntityID = entityID,
                ev_EventID = LastEventID (ent_Data (Entity vrec2)),
                ev_CreatedAt = wallclock E (ticks w2 + 1)\<rparr>
     in (Inr (IngestedEntity (Entity vrec2)),
         persistLocked E (appendEvent evt (setEntity key vrec2 (w2\<lparr>ticks := ticks w2 + 2\<rparr>)))))"
  using virt
  by (simp add: ingestEvent_def time_Now_def Let_def split: prod.split)

lemma vstore_setEntity [simp]:
  "entities (vstore (setEntity key rec w)) = (entities (vstore w))(key \<mapsto> rec)"
  "commands (vstore (setEntity key rec w)) = commands (vstore w)"
  "events (vstore (setEntity key rec w)) = events (vstore w)"
  by (simp_all add: setEntity_def)

lemma vstore_setCommand [simp]:
  "commands (vstore (setCommand cid rec w)) = (commands (vstore w))(cid \<mapsto> rec)"
  "entities (vstore (setCommand cid rec w)) = entities (vstore w)"
  "events (vstore (setCommand cid rec w)) = events (vstore w)"
  by (simp_all add: setCommand_def)

lemma vstore_appendEvent [simp]:
  "commands (vstore (appendEvent evt w)) = commands (vstore w)"
  "entities (vstore (appendEvent evt w)) = entities (vstore w)"
  by (simp_all add: appendEvent_def)

lemma withData_Data [simp]: "ent_Data (Entity (withData f rec)) = f (ent_Data (Entity rec))"
  by (simp add: withData_def)

text \<open>
  Claim C10. An event ingested for an existing virtual entity with a non-empty correlation
  ID leaves that ID in the entity's \<open>last_command_id\<close>. When the store has no command
  with that ID the commands are left as they are. When it has one, that record, whatever
  its state and whichever entity it belongs to, gets the state \<open>succeeded\<close> and the
  time of the clock reading taken for it; nothing else in the commands changes.
\<close>

theorem ingest_correlation:
  assumes virt: "entities (vstore w) (entityKey pluginID deviceID entityID) = Some vrec"
    and cid: "correlationID \<noteq> []"
  shows "map_option (\<lambda>r. LastCommandID (ent_Data (Entity r)))
           (entities (vstore (snd (ingestEvent E pluginID deviceID entityID payload correlationID w)))
              (entityKey pluginID deviceID entityID)) = Some correlationID
       \<and> (commands (vstore w) correlationID = None \<longrightarrow>
            commands (vstore (snd (ingestEvent E pluginID deviceID entityID payload correlationID w))) =
              commands (vstore w))
       \<and> (\<forall>cmdRec. commands (vstore w) correlationID = Some cmdRec \<longrightarrow>
            commands (vstore (snd (ingestEvent E pluginID deviceID entityID payload correlationID w))) =
              (commands (vstore w))(correlationID \<mapsto>
                 cmdRec\<lparr>Status := (Status cmdRec)\<lparr>cs_State := ''succeeded'',
                            cs_LastUpdatedAt := wallclock E (ticks w + 1)\<rparr>\<rparr>))"
proof -
  let ?w1 = "snd (nextID E ''vevt'' w)"
  have w1: "commands (vstore ?w1) = commands (vstore w)" "ticks ?w1 = ticks w + 1"
    by (simp_all add: nextID_world)
  show ?thesis
    unfolding ingestEvent_virtual [OF virt] Let_def
    using cid w1
    by (auto simp: correlate_entity correlate_world CommandSucceeded_def split: option.split)
qed

theorem ingest_correlation_witness:
  \<open>commandState (snd (ingestEvent demoEnv ''p2'' ''d2'' ''v1'' ''{"type":"turn_on"}''
                        ''vcmd-1000-1'' demoWorld)) ''vcmd-1000-1'' = Some ''succeeded''
   \<and> commands (vstore (snd (ingestEvent demoEnv ''p2'' ''d2'' ''v1'' ''{"type":"turn_on"}''
                              ''evt-7'' demoWorld))) = commands (vstore demoWorld)
   \<and> map_option (\<lambda>r. LastCommandID (ent_Data (Entity r)))
        (entities (vstore (snd (ingestEvent demoEnv ''p2'' ''d2'' ''v1'' ''{"type":"turn_on"}''
                                  ''evt-7'' demoWorld))) ''p2|d2|v1'') = Some ''evt-7''\<close>
proof -
  have virt: "entities (vstore demoWorld) (entityKey ''p2'' ''d2'' ''v1'') = Some demoVirtual"
    by (simp add: demoWorld_def entityKey_def)
  have key: "entityKey ''p2'' ''d2'' ''v1'' = ''p2|d2|v1''"
    by (simp add: entityKey_def)
  have cmd: "commands (vstore demoWorld) ''vcmd-1000-1'' = Some demoCommand"
    "commands (vstore demoWorld) ''evt-7'' = None"
    by (simp_all add: demoWorld_def)
  have a: \<open>commandState (snd (ingestEvent demoEnv ''p2'' ''d2'' ''v1'' ''{"type":"turn_on"}''
                        ''vcmd-1000-1'' demoWorld)) ''vcmd-1000-1'' = Some ''succeeded''\<close>
    using ingest_correlation [OF virt, of "''vcmd-1000-1''" demoEnv \<open>''{"type":"turn_on"}''\<close>] cmd
    by (simp add: commandState_def)
  have b: \<open>commands (vstore (snd (ingestEvent demoEnv ''p2'' ''d2'' ''v1'' ''{"type":"turn_on"}''
                              ''evt-7'' demoWorld))) = commands (vstore demoWorld)
   \<and> map_option (\<lambda>r. LastCommandID (ent_Data (Entity r)))
        (entities (vstore (snd (ingestEvent demoEnv ''p2'' ''d2'' ''v1'' ''{"type":"turn_on"}''
                                  ''evt-7'' demoWorld))) ''p2|d2|v1'') = Some ''evt-7''\<close>
    using ingest_correlation [OF virt, of "''evt-7''" demoEnv \<open>''{"type":"turn_on"}''\<close>] cmd key
    by simp
  show ?thesis using a b by simp
qed

section \<open>Proofs: the monitor\<close>

lemma store_fields_setCommand [simp]:
  "dataDir (vstore (setCommand cid rec w)) = dataDir (vstore w)"
  "unwritable (setCommand cid rec w) = unwritable w"
  "files (setCommand cid rec w) = files w"
  by (simp_all add: setCommand_def)

lemma store_fields_setEntity [simp]:
  "dataDir (vstore (setEntity key rec w)) = dataDir (vstore w)"
  "unwritable (setEntity key rec w) = unwritable w"
  "files (setEntity key rec w) = files w"
  by (simp_all add: setEntity_def)

lemma monitorTimeout_present:
  assumes "commands (vstore w) commandID = Some rec"
  shows "monitorTimeout E commandID w =
     (let rec1 = rec\<lparr>Status := (Status rec)\<lparr>cs_State := CommandFailed,
                          cs_Error := ''timeout waiting for source command'',
                          cs_LastUpdatedAt := wallclock E (ticks w)\<rparr>\<rparr>
      in persistLocked E
           (case entities (vstore w) (VirtualKey rec) of
              None \<Rightarrow> setCommand commandID rec1 (w\<lparr>ticks := ticks w + 1\<rparr>)
            | Some vent \<Rightarrow>
                setEntity (VirtualKey rec)
                  (withData (\<lambda>d. d\<lparr>SyncStatus := ''failed'', LastCommandID := commandID,
                                    UpdatedAt := wallclock E (ticks w + 1)\<rparr>) vent)
                  (setCommand commandID rec1 (w\<lparr>ticks := ticks w + 2\<rparr>))))"
  using assms
  by (simp add: monitorTimeout_def time_Now_def Let_def setCommand_def setEntity_def
        split: option.split)

lemma monitorLoop_slept:
  "monitorLoop E others commandID i slept w = (Continue, slept', w') \<Longrightarrow>
     slept' = slept + (100 - i) * (100 * Millisecond)"
proof (induction E others commandID i slept w rule: monitorLoop.induct)
  case (1 E others commandID i slept w)
  show ?case
  proof (cases "i < 100")
    case False
    then show ?thesis using "1.prems" by (simp add: monitorLoop.simps [of E others commandID i])
  next
    case True
    obtain r w1 where poll: "monitorPoll E commandID (others i w) = (r, w1)"
      by (cases "monitorPoll E commandID (others i w)")
    show ?thesis
    proof (cases r)
      case Return
      then show ?thesis
        using "1.prems" True poll by (simp add: monitorLoop.simps [of E others commandID i])
    next
      case Continue
      then have "monitorLoop E others commandID (i + 1) (slept + 100 * Millisecond) w1 =
          (Continue, slept', w')"
        using "1.prems" True poll by (simp add: monitorLoop.simps [of E others commandID i])
      then have "slept' = slept + 100 * Millisecond + (100 - (i + 1)) * (100 * Millisecond)"
        using "1.IH" [OF True poll [symmetric] Continue] by simp
      then show ?thesis using True by (simp add: algebra_simps Suc_diff_Suc)
    qed
  qed
qed

text \<open>
  Claim C3. When the loop of the monitor ends after its 100 turns (each after a sleep of
  100 ms, so 10 s of sleep in all) without a turn that saw a status other than pending,
  and the command record is still in the store, the task ends with the record in state
  \<open>failed\<close> with the error \<open>timeout waiting for source command\<close>; the virtual
  entity the record names, when the store has it, gets \<open>sync_status = failed\<close> and
  the command's ID as \<open>last_command_id\<close>; and the three files, where they can be
  written, hold the encoding of the store as it then is.
\<close>

theorem monitor_timeout_marks_failed:
  assumes loop: "monitorLoop E others commandID 0 0 w = (Continue, slept, w1)"
    and present: "commands (vstore w1) commandID = Some rec"
  shows "slept = 100 * (100 * Millisecond)
    \<and> commands (vstore (monitorVirtualCommand E others commandID w)) =
        (commands (vstore w1))(commandID \<mapsto>
           rec\<lparr>Status := (Status rec)\<lparr>cs_State := ''failed'',
                      cs_Error := ''timeout waiting for source command'',
                      cs_LastUpdatedAt := wallclock E (ticks w1)\<rparr>\<rparr>)
    \<and> (\<forall>vent. entities (vstore w1) (VirtualKey rec) = Some vent \<longrightarrow>
          entities (vstore (monitorVirtualCommand E others commandID w)) =
            (entities (vstore w1))(VirtualKey rec \<mapsto>
               withData (\<lambda>d. d\<lparr>SyncStatus := ''failed'', LastCommandID := commandID,
                                 UpdatedAt := wallclock E (ticks w1 + 1)\<rparr>) vent))
    \<and> (virtualFile (dataDir (vstore w1)) ''virtual_entities.json'' \<notin> unwritable w1
        \<and> virtualFile (dataDir (vstore w1)) ''virtual_commands.json'' \<notin> unwritable w1
        \<and> virtualFile (dataDir (vstore w1)) ''event_journal.json'' \<notin> unwritable w1 \<longrightarrow>
          files (monitorVirtualCommand E others commandID w)
              (virtualFile (dataDir (vstore w1)) ''virtual_entities.json'') =
            Some (marshalEntities E (entities (vstore (monitorVirtualCommand E others commandID w))))
        \<and> files (monitorVirtualCommand E others commandID w)
              (virtualFile (dataDir (vstore w1)) ''virtual_commands.json'') =
            Some (marshalCommands E (commands (vstore (monitorVirtualCommand E others commandID w))))
        \<and> files (monitorVirtualCommand E others commandID w)
              (virtualFile (dataDir (vstore w1)) ''event_journal.json'') =
            Some (marshalJournal E (events (vstore (monitorVirtualCommand E others commandID w)))))"
proof -
  let ?rec1 = "rec\<lparr>Status := (Status rec)\<lparr>cs_State := CommandFailed,
                      cs_Error := ''timeout waiting for source command'',
                      cs_LastUpdatedAt := wallclock E (ticks w1)\<rparr>\<rparr>"
  let ?w3 = "case entities (vstore w1) (VirtualKey rec) of
              None \<Rightarrow> setCommand commandID ?rec1 (w1\<lparr>ticks := ticks w1 + 1\<rparr>)
            | Some vent \<Rightarrow>
                setEntity (VirtualKey rec)
                  (withData (\<lambda>d. d\<lparr>SyncStatus := ''failed'', LastCommandID := commandID,
                                    UpdatedAt := wallclock E (ticks w1 + 1)\<rparr>) vent)
                  (setCommand commandID ?rec1 (w1\<lparr>ticks := ticks w1 + 2\<rparr>))"
  have run: "monitorVirtualCommand E others commandID w = persistLocked E ?w3"
    using loop monitorTimeout_present [OF present, of E]
    by (simp add: monitorVirtualCommand_def Let_def)
  have slept: "slept = 100 * (100 * Millisecond)"
    using monitorLoop_slept [OF loop] by simp
  have w3: "dataDir (vstore ?w3) = dataDir (vstore w1)" "unwritable ?w3 = unwritable w1"
    by (simp_all split: option.split)
  have cmds: "commands (vstore ?w3) = (commands (vstore w1))(commandID \<mapsto> ?rec1)"
    by (simp split: option.split)
  have ents: "entities (vstore w1) (VirtualKey rec) = Some vent \<Longrightarrow>
      entities (vstore ?w3) = (entities (vstore w1))(VirtualKey rec \<mapsto>
         withData (\<lambda>d. d\<lparr>SyncStatus := ''failed'', LastCommandID := commandID,
                           UpdatedAt := wallclock E (ticks w1 + 1)\<rparr>) vent)" for vent
    by simp
  have disk: "virtualFile (dataDir (vstore w1)) ''virtual_entities.json'' \<notin> unwritable w1
        \<and> virtualFile (dataDir (vstore w1)) ''virtual_commands.json'' \<notin> unwritable w1
        \<and> virtualFile (dataDir (vstore w1)) ''event_journal.json'' \<notin> unwritable w1 \<Longrightarrow>
      files (persistLocked E ?w3) (virtualFile (dataDir (vstore w1)) ''virtual_entities.json'') =
        Some (marshalEntities E (entities (vstore ?w3)))
      \<and> files (persistLocked E ?w3) (virtualFile (dataDir (vstore w1)) ''virtual_commands.json'') =
        Some (marshalCommands E (commands (vstore ?w3)))
      \<and> files (persistLocked E ?w3) (virtualFile (dataDir (vstore w1)) ''event_journal.json'') =
        Some (marshalJournal E (events (vstore ?w3)))"
    using persisted_files [of ?w3 E] unfolding w3 by blast
  show ?thesis
    unfolding run vstore_persistLocked
    using slept cmds ents disk by (simp add: CommandFailed_def)
qed

lemma demo_poll:
  "monitorPoll demoEnv ''vcmd-1000-1'' (demoWorld\<lparr>sent := xs\<rparr>) =
     (Continue, demoWorld\<lparr>sent := xs @ [demoStatusRequest]\<rparr>)"
  by (simp add: monitorPoll_def fetchCommandStatus_def routeRPC_def nc_Request_def
        demoWorld_def demoCommand_def demoEnv_def demoStatusRequest_def JSONRPCVersion_def
        Second_def Millisecond_def CommandPending_def)

lemma demo_loop:
  "100 - i = k \<Longrightarrow>
   monitorLoop demoEnv (\<lambda>i w. w) ''vcmd-1000-1'' i slept (demoWorld\<lparr>sent := xs\<rparr>) =
     (Continue, slept + k * (100 * Millisecond),
      demoWorld\<lparr>sent := xs @ replicate k demoStatusRequest\<rparr>)"
proof (induction k arbitrary: i slept xs)
  case 0
  then have "\<not> i < 100" by simp
  then show ?case
    by (simp add: monitorLoop.simps [of demoEnv "\<lambda>i w. w" "''vcmd-1000-1''" i])
next
  case (Suc k)
  then have i: "i < 100" and k: "100 - (i + 1) = k" by simp_all
  show ?case
    using i Suc.IH [OF k, of "slept + 100 * Millisecond" "xs @ [demoStatusRequest]"]
    by (simp add: monitorLoop.simps [of demoEnv "\<lambda>i w. w" "''vcmd-1000-1''" i] demo_poll
          replicate_app_Cons_same)
qed

theorem monitor_timeout_marks_failed_witness:
  "map_option (\<lambda>r. (cs_State (Status r), cs_Error (Status r)))
     (commands (vstore (monitorVirtualCommand demoEnv (\<lambda>i w. w) ''vcmd-1000-1'' demoWorld))
        ''vcmd-1000-1'') = Some (''failed'', ''timeout waiting for source command'')
   \<and> map_option (\<lambda>r. (SyncStatus (ent_Data (Entity r)), LastCommandID (ent_Data (Entity r))))
       (entities (vstore (monitorVirtualCommand demoEnv (\<lambda>i w. w) ''vcmd-1000-1'' demoWorld))
          ''p2|d2|v1'') = Some (''failed'', ''vcmd-1000-1'')
   \<and> files (monitorVirtualCommand demoEnv (\<lambda>i w. w) ''vcmd-1000-1'' demoWorld)
         ''data/virtual_commands.json'' =
       Some (marshalCommands demoEnv
               (commands (vstore (monitorVirtualCommand demoEnv (\<lambda>i w. w) ''vcmd-1000-1'' demoWorld))))"
proof -
  let ?w1 = "demoWorld\<lparr>sent := replicate 100 demoStatusRequest\<rparr>"
  have start: "demoWorld\<lparr>sent := []\<rparr> = demoWorld"
    by (simp add: demoWorld_def)
  have loop: "monitorLoop demoEnv (\<lambda>i w. w) ''vcmd-1000-1'' 0 0 demoWorld =
      (Continue, 100 * (100 * Millisecond), ?w1)"
    using demo_loop [of 0 100 0 "[]"] by (simp add: start)
  have present: "commands (vstore ?w1) ''vcmd-1000-1'' = Some demoCommand"
    by (simp add: demoWorld_def)
  have ent: "entities (vstore ?w1) (VirtualKey demoCommand) = Some demoVirtual"
    "VirtualKey demoCommand = ''p2|d2|v1''"
    by (simp_all add: demoWorld_def demoCommand_def)
  have disk: "unwritable ?w1 = {}" "dataDir (vstore ?w1) = ''data''"
    by (simp_all add: demoWorld_def)
  show ?thesis
    using monitor_timeout_marks_failed [OF loop present] ent disk
    by (simp add: virtualFile_def)
qed

section \<open>Proofs: the ID generator\<close>

lemma digit_inj:
  "a < 10 \<Longrightarrow> b < 10 \<Longrightarrow> ''0123456789'' ! a = ''0123456789'' ! b \<Longrightarrow> a = b"
proof -
  have d: "distinct ''0123456789''" by simp
  have l: "length ''0123456789'' = 10" by simp
  show "a < 10 \<Longrightarrow> b < 10 \<Longrightarrow> ''0123456789'' ! a = ''0123456789'' ! b \<Longrightarrow> a = b"
    using nth_eq_iff_index_eq [OF d, of a b] unfolding l by blast
qed

lemma digit_no_dash: "a < 10 \<Longrightarrow> ''0123456789'' ! a \<noteq> CHR ''-''"
proof -
  assume "a < 10"
  then have "''0123456789'' ! a \<in> set ''0123456789''"
    by (intro nth_mem) simp
  then show ?thesis by auto
qed

lemma fmt_d_nonempty: "fmt_d n \<noteq> []"
  by (subst fmt_d.simps) simp

lemma fmt_d_no_dash: "CHR ''-'' \<notin> set (fmt_d n)"
proof (induction n rule: fmt_d.induct)
  case (1 n)
  show ?case
  proof (cases "n < 10")
    case True
    then show ?thesis
      using digit_no_dash [of n] by (subst fmt_d.simps) auto
  next
    case False
    then show ?thesis
      using "1.IH" digit_no_dash [of "n mod 10"] by (subst fmt_d.simps) auto
  qed
qed

lemma fmt_d_inj: "fmt_d n = fmt_d m \<Longrightarrow> n = m"
proof (induction n arbitrary: m rule: fmt_d.induct)
  case (1 n)
  show ?case
  proof (cases "n < 10")
    case True
    have "m < 10"
    proof (rule ccontr)
      assume "\<not> m < 10"
      then have "length (fmt_d m) = length (fmt_d (m div 10)) + 1"
        by (subst fmt_d.simps) simp
      moreover have "length (fmt_d (m div 10)) > 0"
        using fmt_d_nonempty by simp
      moreover have "length (fmt_d n) = 1"
        using True by (subst fmt_d.simps) simp
      ultimately show False using "1.prems" by simp
    qed
    then show ?thesis
      using True "1.prems" digit_inj [of n m]
      by (simp add: fmt_d.simps [of n] fmt_d.simps [of m])
  next
    case False
    have "\<not> m < 10"
    proof
      assume "m < 10"
      then have "length (fmt_d m) = 1"
        by (subst fmt_d.simps) simp
      moreover have "length (fmt_d n) = length (fmt_d (n div 10)) + 1"
        using False by (subst fmt_d.simps) simp
      moreover have "length (fmt_d (n div 10)) > 0"
        using fmt_d_nonempty by simp
      ultimately show False using "1.prems" by simp
    qed
    then have eq: "fmt_d (n div 10) @ [''0123456789'' ! (n mod 10)] =
        fmt_d (m div 10) @ [''0123456789'' ! (m mod 10)]"
      using False "1.prems" by (simp add: fmt_d.simps [of n] fmt_d.simps [of m])
    then have "fmt_d (n div 10) = fmt_d (m div 10)"
      and "''0123456789'' ! (n mod 10) = ''0123456789'' ! (m mod 10)"
      by simp_all
    then have "n div 10 = m div 10" and "n mod 10 = m mod 10"
      using "1.IH" [OF False] digit_inj [of "n mod 10" "m mod 10"] by simp_all
    then have "n div 10 * 10 + n mod 10 = m div 10 * 10 + m mod 10"
      by simp
    then show ?thesis
      by (simp only: div_mult_mod_eq)
  qed
qed

lemma last_field:
  assumes "CHR ''-'' \<notin> set d"
  shows "takeWhile (\<lambda>c. c \<noteq> CHR ''-'') (rev (a @ ''-'' @ d)) = rev d"
proof -
  have "takeWhile (\<lambda>c. c \<noteq> CHR ''-'') (rev d @ CHR ''-'' # rev a) =
      takeWhile (\<lambda>c. c \<noteq> CHR ''-'') (rev d)"
    by (rule takeWhile_tail) simp
  also have "\<dots> = rev d"
    using assms by (auto simp: takeWhile_eq_all_conv)
  finally show ?thesis by simp
qed

lemma id_counter_inj:
  assumes "p @ ''-'' @ t @ ''-'' @ fmt_d n = p' @ ''-'' @ t' @ ''-'' @ fmt_d m"
  shows "n = m"
proof -
  have "takeWhile (\<lambda>c. c \<noteq> CHR ''-'') (rev ((p @ ''-'' @ t) @ ''-'' @ fmt_d n)) =
      takeWhile (\<lambda>c. c \<noteq> CHR ''-'') (rev ((p' @ ''-'' @ t') @ ''-'' @ fmt_d m))"
    using assms by simp
  then have "rev (fmt_d n) = rev (fmt_d m)"
    unfolding last_field [OF fmt_d_no_dash] .
  then show ?thesis using fmt_d_inj by simp
qed

lemma nextID_value:
  "nextID E prefix w =
     (prefix @ ''-'' @ fmt_d_int (wallclock E (ticks w)) @ ''-'' @ fmt_d (unat (idSeq w + 1)),
      w\<lparr>ticks := ticks w + 1, idSeq := idSeq w + 1\<rparr>)"
  by (simp add: nextID_def time_Now_def Let_def)

lemma counter_differs:
  assumes "0 < k" "k < 2 ^ 64"
  shows "unat ((c :: 64 word) + of_nat k) \<noteq> unat c"
proof
  assume "unat (c + of_nat k) = unat c"
  then have "c + of_nat k = c"
    by (simp add: word_unat_eq_iff)
  then have "(of_nat k :: 64 word) = 0"
    by simp
  then have "(2 :: nat) ^ 64 dvd k"
    by (simp add: word_of_nat_eq_0_iff)
  then have "(2 :: nat) ^ 64 \<le> k"
    using assms(1) by (rule dvd_imp_le)
  then show False using assms(2) by simp
qed

lemma nextID_differ:
  assumes "0 < k" "k < 2 ^ 64" "idSeq w' = idSeq w + of_nat k"
  shows "fst (nextID E p w) \<noteq> fst (nextID E' p' w')"
proof
  assume "fst (nextID E p w) = fst (nextID E' p' w')"
  then have "unat (idSeq w + 1) = unat (idSeq w' + 1)"
    unfolding nextID_value fst_conv by (rule id_counter_inj)
  moreover have "idSeq w' + 1 = (idSeq w + 1) + of_nat k"
    using assms(3) by simp
  ultimately show False
    using counter_differs [OF assms(1,2), of "idSeq w + 1"] by simp
qed

lemma nextIDs_counters:
  "x \<in> set (fst (nextIDs E ps w)) \<Longrightarrow>
     \<exists>p t j. 0 < j \<and> j \<le> length ps \<and> x = p @ ''-'' @ t @ ''-'' @ fmt_d (unat (idSeq w + of_nat j))"
proof (induction ps arbitrary: w)
  case Nil
  then show ?case by simp
next
  case (Cons q ps)
  let ?w1 = "w\<lparr>ticks := ticks w + 1, idSeq := idSeq w + 1\<rparr>"
  have unfold: "fst (nextIDs E (q # ps) w) = fst (nextID E q w) # fst (nextIDs E ps ?w1)"
    by (simp add: nextID_value split: prod.split)
  from Cons.prems consider "x = fst (nextID E q w)" | "x \<in> set (fst (nextIDs E ps ?w1))"
    unfolding unfold by auto
  then show ?case
  proof cases
    case 1
    then have "x = q @ ''-'' @ fmt_d_int (wallclock E (ticks w)) @ ''-'' @ fmt_d (unat (idSeq w + of_nat 1))"
      by (simp add: nextID_value)
    then show ?thesis
      by (intro exI [of _ q] exI [of _ "fmt_d_int (wallclock E (ticks w))"] exI [of _ 1]) simp
  next
    case 2
    then obtain p t j where j: "0 < j" "j \<le> length ps"
      and x: "x = p @ ''-'' @ t @ ''-'' @ fmt_d (unat (idSeq ?w1 + of_nat j))"
      using Cons.IH [of ?w1] by blast
    have "idSeq ?w1 + of_nat j = idSeq w + of_nat (Suc j)"
      by (simp add: add.assoc)
    then have "x = p @ ''-'' @ t @ ''-'' @ fmt_d (unat (idSeq w + of_nat (Suc j)))"
      using x by (simp only:)
    then show ?thesis
      using j by (intro exI [of _ p] exI [of _ t] exI [of _ "Suc j"]) simp
  qed
qed

lemma nextIDs_distinct:
  "length ps \<le> 2 ^ 64 \<Longrightarrow> distinct (fst (nextIDs E ps w))"
proof (induction ps arbitrary: w)
  case Nil
  then show ?case by simp
next
  case (Cons q ps)
  let ?w1 = "w\<lparr>ticks := ticks w + 1, idSeq := idSeq w + 1\<rparr>"
  have unfold: "fst (nextIDs E (q # ps) w) = fst (nextID E q w) # fst (nextIDs E ps ?w1)"
    by (simp add: nextID_value split: prod.split)
  have len: "length ps < 2 ^ 64"
    using Cons.prems by simp
  have "fst (nextID E q w) \<notin> set (fst (nextIDs E ps ?w1))"
  proof
    assume "fst (nextID E q w) \<in> set (fst (nextIDs E ps ?w1))"
    then obtain p t j where j: "0 < j" "j \<le> length ps"
      and eq: "fst (nextID E q w) = p @ ''-'' @ t @ ''-'' @ fmt_d (unat (idSeq ?w1 + of_nat j))"
      using nextIDs_counters [of _ E ps ?w1] by blast
    have "unat (idSeq w + 1) = unat (idSeq ?w1 + of_nat j)"
      using eq unfolding nextID_value fst_conv by (rule id_counter_inj)
    moreover have "j < 2 ^ 64" using j len by simp
    ultimately show False
      using counter_differs [OF j(1), of "idSeq w + 1"] by simp
  qed
  moreover have "distinct (fst (nextIDs E ps ?w1))"
    using Cons.IH [of ?w1] len by simp
  ultimately show ?case unfolding unfold by simp
qed

text \<open>
  Claim C8. Two calls of the ID generator return different IDs, whatever their prefixes
  and whatever the clock shows, as long as fewer than \<open>2^64\<close> calls lie between them
  (the counter is a \<open>uint64\<close>); so the IDs of up to \<open>2^64\<close> calls in a row are
  pairwise different. An ID is the prefix, the clock reading and the incremented counter
  in decimal, joined by dashes; the counter is zero at process start and each call adds
  one to it.
\<close>

theorem nextID_unique:
  "(0 < k \<and> k < 2 ^ 64 \<and> idSeq w' = idSeq w + of_nat k \<longrightarrow>
      fst (nextID E p w) \<noteq> fst (nextID E' p' w'))
   \<and> (length ps \<le> 2 ^ 64 \<longrightarrow> distinct (fst (nextIDs E ps w)))
   \<and> nextID E p w =
       (p @ ''-'' @ fmt_d_int (wallclock E (ticks w)) @ ''-'' @ fmt_d (unat (idSeq w + 1)),
        w\<lparr>ticks := ticks w + 1, idSeq := idSeq w + 1\<rparr>)
   \<and> idSeq (startup E dir fs ro) = 0"
  using nextID_differ [of k w' w E p E' p'] nextIDs_distinct [of ps E w] nextID_value [of E p w]
  by (simp add: startup_def)

theorem nextID_unique_witness:
  "fst (nextIDs demoEnv [''vcmd'', ''vevt'', ''vcmd''] freshWorld) =
     [''vcmd-1000-1'', ''vevt-1001-2'', ''vcmd-1002-3'']
   \<and> distinct (fst (nextIDs demoEnv [''vcmd'', ''vevt'', ''vcmd''] freshWorld))
   \<and> fst (nextID (demoEnv\<lparr>wallclock := \<lambda>n. 1000\<rparr>) ''vcmd'' freshWorld) \<noteq>
       fst (nextID (demoEnv\<lparr>wallclock := \<lambda>n. 1000\<rparr>) ''vcmd'' (freshWorld\<lparr>idSeq := 1\<rparr>))"
proof -
  let ?E = "demoEnv\<lparr>wallclock := \<lambda>n. 1000\<rparr>"
  have len: "length [''vcmd'', ''vevt'', ''vcmd''] \<le> (2 :: nat) ^ 64"
    by simp
  have vals: "fst (nextIDs demoEnv [''vcmd'', ''vevt'', ''vcmd''] freshWorld) =
     [''vcmd-1000-1'', ''vevt-1001-2'', ''vcmd-1002-3'']"
    by (simp add: nextID_def time_Now_def freshWorld_def demoEnv_def fmt_d_int_def fmt_d.simps)
  have later: "(0 :: nat) < 1 \<and> (1 :: nat) < 2 ^ 64
      \<and> idSeq (freshWorld\<lparr>idSeq := 1\<rparr>) = idSeq freshWorld + of_nat 1"
    by (simp add: freshWorld_def)
  have d: "distinct (fst (nextIDs demoEnv [''vcmd'', ''vevt'', ''vcmd''] freshWorld))"
    using nextID_unique [of 1 freshWorld freshWorld demoEnv "''vcmd''" demoEnv "''vcmd''"
        "[''vcmd'', ''vevt'', ''vcmd'']"] len by blast
  have p: "fst (nextID ?E ''vcmd'' freshWorld) \<noteq> fst (nextID ?E ''vcmd'' (freshWorld\<lparr>idSeq := 1\<rparr>))"
    using nextID_unique [of 1 "freshWorld\<lparr>idSeq := 1\<rparr>" freshWorld ?E "''vcmd''" ?E "''vcmd''" "[]"]
      later by blast
  show ?thesis by (intro conjI vals d p)
qed

section \<open>Proofs: the state of a command over time\<close>

lemma routeRPC_store: "routeRPC E p m ps w = (r, w') \<Longrightarrow> vstore w' = vstore w"
  using vstore_routeRPC(1) [of E p m ps w] by simp

lemma findEntity_store: "findEntity E p d e w = (r, w') \<Longrightarrow> vstore w' = vstore w"
  using vstore_findEntity(1) [of E p d e w] by simp

lemma fetchCommandStatus_store:
  "fetchCommandStatus E p c w = (r, w') \<Longrightarrow> vstore w' = vstore w"
  by (auto simp: fetchCommandStatus_def split: prod.splits option.splits dest: routeRPC_store)

lemma commands_applySourceStatus:
  "commands (vstore (applySourceStatus E commandID st w)) =
     (case commands (vstore w) commandID of
        None \<Rightarrow> commands (vstore w)
      | Some rec \<Rightarrow>
          (commands (vstore w))(commandID \<mapsto>
             rec\<lparr>Status := (Status rec)\<lparr>cs_State := cs_State st, cs_Error := cs_Error st,
                        cs_LastUpdatedAt := wallclock E (ticks w)\<rparr>\<rparr>))"
  by (auto simp: applySourceStatus_def time_Now_def Let_def
        split: option.split prod.split sum.split dest!: findEntity_store)

lemma commandState_monitorPoll:
  "commandState (snd (monitorPoll E commandID w)) c = commandState w c
   \<or> (\<exists>s. commandState w c \<noteq> None \<and> s \<noteq> CommandPending
           \<and> commandState (snd (monitorPoll E commandID w)) c = Some s)"
  by (auto simp: monitorPoll_def commandState_def commands_applySourceStatus
        split: option.split prod.split sum.split dest!: fetchCommandStatus_store)

lemma commands_monitorTimeout:
  "commands (vstore (monitorTimeout E commandID w)) =
     (case commands (vstore w) commandID of
        None \<Rightarrow> commands (vstore w)
      | Some rec \<Rightarrow>
          (commands (vstore w))(commandID \<mapsto>
             rec\<lparr>Status := (Status rec)\<lparr>cs_State := CommandFailed,
                        cs_Error := ''timeout waiting for source command'',
                        cs_LastUpdatedAt := wallclock E (ticks w)\<rparr>\<rparr>))"
  by (auto simp: monitorTimeout_def time_Now_def Let_def split: option.split prod.split)

lemma entities_monitorTimeout:
  "entities (vstore (monitorTimeout E commandID w)) =
     (case commands (vstore w) commandID of
        None \<Rightarrow> entities (vstore w)
      | Some rec \<Rightarrow>
          (case entities (vstore w) (VirtualKey rec) of
             None \<Rightarrow> entities (vstore w)
           | Some vent \<Rightarrow>
               (entities (vstore w))(VirtualKey rec \<mapsto>
                  withData (\<lambda>d. d\<lparr>SyncStatus := ''failed'', LastCommandID := commandID,
                                    UpdatedAt := wallclock E (ticks w + 1)\<rparr>) vent)))"
  by (auto simp: monitorTimeout_def time_Now_def Let_def setCommand_def
        split: option.split prod.split)

lemma commands_ingestEvent:
  "commands (vstore (snd (ingestEvent E pluginID deviceID entityID payload correlationID w))) =
     (if entities (vstore w) (entityKey pluginID deviceID entityID) \<noteq> None \<and> correlationID \<noteq> []
      then (case commands (vstore w) correlationID of
              None \<Rightarrow> commands (vstore w)
            | Some rec \<Rightarrow>
                (commands (vstore w))(correlationID \<mapsto>
                   rec\<lparr>Status := (Status rec)\<lparr>cs_State := CommandSucceeded,
                              cs_LastUpdatedAt := wallclock E (ticks w + 1)\<rparr>\<rparr>))
      else commands (vstore w))"
proof (cases "entities (vstore w) (entityKey pluginID deviceID entityID)")
  case None
  then show ?thesis
    by (auto simp: ingestEvent_def Let_def split: prod.split option.split dest!: routeRPC_store)
next
  case (Some vrec)
  show ?thesis
  proof (cases "correlationID = []")
    case True
    then show ?thesis
      unfolding ingestEvent_virtual [OF Some] Let_def
      by (simp add: correlate_def nextID_world)
  next
    case False
    then show ?thesis
      unfolding ingestEvent_virtual [OF Some] Let_def
      using Some by (simp add: correlate_world nextID_world split: option.split)
  qed
qed

lemma commandState_monitorTimeout:
  "commandState (monitorTimeout E commandID w) c = commandState w c
   \<or> (commandState w c \<noteq> None \<and> commandState (monitorTimeout E commandID w) c = Some CommandFailed)"
  by (auto simp: commandState_def commands_monitorTimeout split: option.split)

lemma commandState_ingestEvent:
  "commandState (snd (ingestEvent E pluginID deviceID entityID payload correlationID w)) c =
     commandState w c
   \<or> (commandState w c \<noteq> None
       \<and> commandState (snd (ingestEvent E pluginID deviceID entityID payload correlationID w)) c =
           Some CommandSucceeded)"
  by (auto simp: commandState_def commands_ingestEvent split: option.split)

lemma perform_not_pending:
  assumes "commandState w c = Some s" "s \<noteq> CommandPending"
  shows "\<exists>s'. commandState (perform E op w) c = Some s' \<and> s' \<noteq> CommandPending"
proof (cases op)
  case (MonitorPoll commandID)
  then show ?thesis
    using assms commandState_monitorPoll [of E commandID w c] by auto
next
  case (MonitorTimeout commandID)
  then show ?thesis
    using assms commandState_monitorTimeout [of E commandID w c]
    by (auto simp: CommandFailed_def CommandPending_def)
next
  case (IngestEvent pluginID deviceID entityID payload correlationID)
  then show ?thesis
    using assms commandState_ingestEvent [of E pluginID deviceID entityID payload correlationID w c]
    by (auto simp: CommandSucceeded_def CommandPending_def)
qed

lemma performAll_not_pending:
  "commandState w c = Some s \<Longrightarrow> s \<noteq> CommandPending \<Longrightarrow>
     \<exists>s'. commandState (performAll E ops w) c = Some s' \<and> s' \<noteq> CommandPending"
proof (induction ops arbitrary: w s)
  case Nil
  then show ?case by (simp add: performAll_def)
next
  case (Cons op ops)
  obtain s1 where s1: "commandState (perform E op w) c = Some s1" "s1 \<noteq> CommandPending"
    using perform_not_pending [OF Cons.prems] by blast
  have "performAll E (op # ops) w = performAll E ops (perform E op w)"
    by (simp add: performAll_def)
  then show ?case
    using Cons.IH [OF s1] by simp
qed

text \<open>
  What the three operations do keep: a state other than \<open>pending\<close> is never followed
  by \<open>pending\<close>, and a record is never removed. A monitor turn writes the source's state
  only when that is not pending, the timeout writes \<open>failed\<close>, and a correlated ingest
  writes \<open>succeeded\<close>.
\<close>

lemma terminal_never_pending:
  assumes "commandState w c = Some s" and "s = ''succeeded'' \<or> s = ''failed''"
  shows "\<exists>s'. commandState (performAll E ops w) c = Some s' \<and> s' \<noteq> ''pending''"
proof -
  have "s \<noteq> CommandPending"
    using assms(2) by (auto simp: CommandPending_def)
  then show ?thesis
    using performAll_not_pending [OF assms(1), of E ops] by (simp add: CommandPending_def)
qed

text \<open>
  Claim C1. The gateway documents the life of a command as \<open>pending \<rightarrow> succeeded |
  failed\<close> (the description of the status route), which is what the claim says: a
  terminal state stays. The code does not keep it, because none of the three writers
  looks at the state that is there. The monitor re-reads the record under the exclusive
  lock and tests only that it exists; the ingest tests only that a record has the
  correlation ID.

  In the scenario the source command never leaves \<open>pending\<close>. An event with the
  command's ID as correlation ID marks the virtual command \<open>succeeded\<close>; its monitor,
  still polling, reaches the end of its loop and marks it \<open>failed\<close>. In the other order,
  the monitor's timeout marks the command \<open>failed\<close> and the event, arriving late, marks
  it \<open>succeeded\<close>.
\<close>

theorem terminal_state_not_kept:
  \<open>commandState demoWorld ''vcmd-1000-1'' = Some ''pending''
   \<and> commandState
       (perform demoEnv (IngestEvent ''p2'' ''d2'' ''v1'' ''{"type":"turn_on"}'' ''vcmd-1000-1'')
          demoWorld) ''vcmd-1000-1'' =
     Some ''succeeded''
   \<and> commandState
       (perform demoEnv (MonitorTimeout ''vcmd-1000-1'')
          (perform demoEnv (IngestEvent ''p2'' ''d2'' ''v1'' ''{"type":"turn_on"}'' ''vcmd-1000-1'')
             demoWorld)) ''vcmd-1000-1'' =
     Some ''failed''
   \<and> commandState (perform demoEnv (MonitorTimeout ''vcmd-1000-1'') demoWorld) ''vcmd-1000-1'' =
     Some ''failed''
   \<and> commandState
       (perform demoEnv (IngestEvent ''p2'' ''d2'' ''v1'' ''{"type":"turn_on"}'' ''vcmd-1000-1'')
          (perform demoEnv (MonitorTimeout ''vcmd-1000-1'') demoWorld)) ''vcmd-1000-1'' =
     Some ''succeeded''\<close>
proof -
  have cmd: "commands (vstore demoWorld) ''vcmd-1000-1'' = Some demoCommand"
    and ent: "entities (vstore demoWorld) ''p2|d2|v1'' = Some demoVirtual"
    and key: "VirtualKey demoCommand = ''p2|d2|v1''"
    and st: "cs_State (Status demoCommand) = ''pending''"
    by (simp_all add: demoWorld_def demoCommand_def CommandPending_def)
  show ?thesis
    by (simp add: commandState_def commands_monitorTimeout commands_ingestEvent
          entities_monitorTimeout entityKey_def cmd ent key st CommandFailed_def
          CommandSucceeded_def)
qed

end
